theory Spec2Isabelle
  imports Main
begin

section \<open>The form engine of form-mcp\<close>

text \<open>
  A shallow embedding of \<^verbatim>\<open>src/formEngine.ts\<close> and \<^verbatim>\<open>src/formTypes.ts\<close>:
  question-order derivation, the in-memory store, the field mutator, the navigator and the
  validator with its document reconstruction.

  JavaScript values are primitives or references to objects in a heap, because the
  reconstruction step stores the caller's objects by reference and writes into them.
  An object has own properties in enumeration order and a prototype; an array has a
  \<^verbatim>\<open>length\<close> in addition. Property reads follow the prototype chain up to
  \<^verbatim>\<open>Object.prototype\<close>, whose accessor \<^verbatim>\<open>__proto__\<close> reads and sets the prototype of the
  receiver. Numbers are modelled by integers (JSON answers carry no NaN). Answers are
  JSON values: a function occurs only as an inherited built-in member. Schemas are read
  through their own properties.
\<close>

subsection \<open>Values and the heap\<close>

datatype jsval = Undefined | Null | Bool bool | Num int | Str string | Ref nat
  | ObjectPrototype | ArrayPrototype | Builtin string

text \<open>
  A heap cell is an ordinary object or an array with the default prototype
  (\<open>PlainObj\<close>, \<open>ArrayObj\<close>), one whose prototype has been set (\<open>ProtoObj\<close>, \<open>ProtoArr\<close>),
  or the cell that holds what has been written into one of the two built-in prototypes.
  As long as the heap has no such cell, the built-in prototype has its built-in members
  only; the cell is added at the first write.
\<close>

datatype jsobj =
    PlainObj "(string \<times> jsval) list"
  | ArrayObj nat "(string \<times> jsval) list"
  | ProtoObj jsval "(string \<times> jsval) list"
  | ProtoArr jsval nat "(string \<times> jsval) list"
  | ObjectPrototypeCell "(string \<times> jsval) list"
  | ArrayPrototypeCell jsval nat "(string \<times> jsval) list"

type_synonym heap = "jsobj list"

datatype error = Error string | RangeError | TypeError | CompileError

datatype ('a, 's) outcome = Returned 'a 's | Threw error 's

fun state_of :: "('a, 's) outcome \<Rightarrow> 's" where
  "state_of (Returned x s) = s"
| "state_of (Threw e s) = s"

fun truthy :: "jsval \<Rightarrow> bool" where
  "truthy Undefined = False"
| "truthy Null = False"
| "truthy (Bool b) = b"
| "truthy (Num n) = (n \<noteq> 0)"
| "truthy (Str s) = (s \<noteq> [])"
| "truthy (Ref a) = True"
| "truthy ObjectPrototype = True"
| "truthy ArrayPrototype = True"
| "truthy (Builtin f) = True"

fun js_typeof :: "jsval \<Rightarrow> string" where
  "js_typeof Undefined = ''undefined''"
| "js_typeof Null = ''object''"
| "js_typeof (Bool b) = ''boolean''"
| "js_typeof (Num n) = ''number''"
| "js_typeof (Str s) = ''string''"
| "js_typeof (Ref a) = ''object''"
| "js_typeof ObjectPrototype = ''object''"
| "js_typeof ArrayPrototype = ''object''"
| "js_typeof (Builtin f) = ''function''"

fun is_object :: "jsval \<Rightarrow> bool" where
  "is_object (Ref a) = True"
| "is_object ObjectPrototype = True"
| "is_object ArrayPrototype = True"
| "is_object v = False"

text \<open>
  Own string keys enumerate array indices first, in ascending numeric order, then the
  other keys in insertion order. An array index is a canonical decimal numeral below
  \<open>2^32 - 1\<close>.
\<close>

definition is_digit :: "char \<Rightarrow> bool" where
  "is_digit c = (48 \<le> (of_char c :: nat) \<and> (of_char c :: nat) \<le> 57)"

definition parse_nat :: "string \<Rightarrow> nat" where
  "parse_nat s = foldl (\<lambda>n c. 10 * n + ((of_char c :: nat) - 48)) 0 s"

definition array_index :: "string \<Rightarrow> nat option" where
  "array_index s =
     (if s \<noteq> [] \<and> list_all is_digit s \<and> (length s = 1 \<or> hd s \<noteq> CHR ''0'')
         \<and> parse_nat s < 4294967295
      then Some (parse_nat s) else None)"

definition key_before :: "string \<Rightarrow> string \<Rightarrow> bool" where
  "key_before k k' =
     (case array_index k of
        None \<Rightarrow> False
      | Some i \<Rightarrow> (case array_index k' of None \<Rightarrow> True | Some j \<Rightarrow> i < j))"

fun prop_insert :: "(string \<times> 'v) list \<Rightarrow> string \<Rightarrow> 'v \<Rightarrow> (string \<times> 'v) list" where
  "prop_insert [] k v = [(k, v)]"
| "prop_insert ((k', v') # ps) k v =
     (if key_before k k' then (k, v) # (k', v') # ps else (k', v') # prop_insert ps k v)"

fun prop_update :: "(string \<times> 'v) list \<Rightarrow> string \<Rightarrow> 'v \<Rightarrow> (string \<times> 'v) list" where
  "prop_update [] k v = []"
| "prop_update ((k', v') # ps) k v =
     (if k' = k then (k', v) # prop_update ps k v else (k', v') # prop_update ps k v)"

definition prop_put :: "(string \<times> 'v) list \<Rightarrow> string \<Rightarrow> 'v \<Rightarrow> (string \<times> 'v) list" where
  "prop_put ps k v = (if map_of ps k = None then prop_insert ps k v else prop_update ps k v)"

definition heap_obj :: "heap \<Rightarrow> nat \<Rightarrow> jsobj" where
  "heap_obj h a = (if a < length h then h ! a else PlainObj [])"

fun is_plain :: "jsobj \<Rightarrow> bool" where
  "is_plain (PlainObj ps) = True"
| "is_plain c = False"

subsection \<open>Objects: own properties, prototypes, reads and writes\<close>

fun obj_props :: "jsobj \<Rightarrow> (string \<times> jsval) list" where
  "obj_props (PlainObj ps) = ps"
| "obj_props (ArrayObj n ps) = ps"
| "obj_props (ProtoObj p ps) = ps"
| "obj_props (ProtoArr p n ps) = ps"
| "obj_props (ObjectPrototypeCell ps) = ps"
| "obj_props (ArrayPrototypeCell p n ps) = ps"

fun obj_length :: "jsobj \<Rightarrow> nat option" where
  "obj_length (ArrayObj n ps) = Some n"
| "obj_length (ProtoArr p n ps) = Some n"
| "obj_length (ArrayPrototypeCell p n ps) = Some n"
| "obj_length c = None"

fun obj_proto :: "jsobj \<Rightarrow> jsval" where
  "obj_proto (PlainObj ps) = ObjectPrototype"
| "obj_proto (ArrayObj n ps) = ArrayPrototype"
| "obj_proto (ProtoObj p ps) = p"
| "obj_proto (ProtoArr p n ps) = p"
| "obj_proto (ObjectPrototypeCell ps) = Null"
| "obj_proto (ArrayPrototypeCell p n ps) = p"

fun with_props :: "jsobj \<Rightarrow> nat \<Rightarrow> (string \<times> jsval) list \<Rightarrow> jsobj" where
  "with_props (PlainObj ps) n qs = PlainObj qs"
| "with_props (ArrayObj m ps) n qs = ArrayObj n qs"
| "with_props (ProtoObj p ps) n qs = ProtoObj p qs"
| "with_props (ProtoArr p m ps) n qs = ProtoArr p n qs"
| "with_props (ObjectPrototypeCell ps) n qs = ObjectPrototypeCell qs"
| "with_props (ArrayPrototypeCell p m ps) n qs = ArrayPrototypeCell p n qs"

fun with_proto :: "jsobj \<Rightarrow> jsval \<Rightarrow> jsobj" where
  "with_proto (PlainObj ps) p = ProtoObj p ps"
| "with_proto (ArrayObj n ps) p = ProtoArr p n ps"
| "with_proto (ProtoObj q ps) p = ProtoObj p ps"
| "with_proto (ProtoArr q n ps) p = ProtoArr p n ps"
| "with_proto (ObjectPrototypeCell ps) p = ObjectPrototypeCell ps"
| "with_proto (ArrayPrototypeCell q n ps) p = ArrayPrototypeCell p n ps"

fun is_object_prototype_cell :: "jsobj \<Rightarrow> bool" where
  "is_object_prototype_cell (ObjectPrototypeCell ps) = True"
| "is_object_prototype_cell c = False"

fun is_array_prototype_cell :: "jsobj \<Rightarrow> bool" where
  "is_array_prototype_cell (ArrayPrototypeCell p n ps) = True"
| "is_array_prototype_cell c = False"

text \<open>The cell that a reference denotes, and the heap with that cell replaced.\<close>

fun cell :: "heap \<Rightarrow> jsval \<Rightarrow> jsobj" where
  "cell h (Ref a) = heap_obj h a"
| "cell h ObjectPrototype =
     (case find is_object_prototype_cell h of None \<Rightarrow> ObjectPrototypeCell [] | Some c \<Rightarrow> c)"
| "cell h ArrayPrototype =
     (case find is_array_prototype_cell h of
        None \<Rightarrow> ArrayPrototypeCell ObjectPrototype 0 []
      | Some c \<Rightarrow> c)"
| "cell h v = PlainObj []"

fun replace_cell :: "(jsobj \<Rightarrow> bool) \<Rightarrow> jsobj \<Rightarrow> heap \<Rightarrow> heap" where
  "replace_cell P c [] = [c]"
| "replace_cell P c (x # xs) = (if P x then c # xs else x # replace_cell P c xs)"

fun store_cell :: "heap \<Rightarrow> jsval \<Rightarrow> jsobj \<Rightarrow> heap" where
  "store_cell h (Ref a) c = h[a := c]"
| "store_cell h ObjectPrototype c = replace_cell is_object_prototype_cell c h"
| "store_cell h ArrayPrototype c = replace_cell is_array_prototype_cell c h"
| "store_cell h v c = h"

text \<open>
  The built-in members of the two prototypes that have string keys: functions, written
  \<open>Builtin\<close>. They are not enumerable, also after an assignment to them.
\<close>

definition object_prototype_members :: "string list" where
  "object_prototype_members =
     [''constructor'', ''__defineGetter__'', ''__defineSetter__'', ''hasOwnProperty'',
      ''__lookupGetter__'', ''__lookupSetter__'', ''isPrototypeOf'', ''propertyIsEnumerable'',
      ''toString'', ''valueOf'', ''toLocaleString'']"

definition array_prototype_members :: "string list" where
  "array_prototype_members =
     [''constructor'', ''at'', ''concat'', ''copyWithin'', ''fill'', ''find'', ''findIndex'',
      ''findLast'', ''findLastIndex'', ''lastIndexOf'', ''pop'', ''push'', ''reverse'',
      ''shift'', ''unshift'', ''slice'', ''sort'', ''splice'', ''includes'', ''indexOf'',
      ''join'', ''keys'', ''entries'', ''values'', ''forEach'', ''filter'', ''flat'',
      ''flatMap'', ''map'', ''every'', ''some'', ''reduce'', ''reduceRight'',
      ''toLocaleString'', ''toString'', ''toReversed'', ''toSorted'', ''toSpliced'', ''with'']"

text \<open>The own property of a cell at a key, if it has one.\<close>

definition own_get :: "jsobj \<Rightarrow> string \<Rightarrow> jsval option" where
  "own_get c k =
     (if obj_length c \<noteq> None \<and> k = ''length''
      then map_option (\<lambda>n. Num (int n)) (obj_length c)
      else (case map_of (obj_props c) k of
              Some v \<Rightarrow> Some v
            | None \<Rightarrow>
                if is_object_prototype_cell c \<and> k \<in> set object_prototype_members
                then Some (Builtin (''Object.prototype.'' @ k))
                else if is_array_prototype_cell c \<and> k \<in> set array_prototype_members
                then Some (Builtin (''Array.prototype.'' @ k))
                else None))"

text \<open>
  The prototype of a value that can be a prototype. A function inherits from
  \<^verbatim>\<open>Function.prototype\<close>, whose members are not modelled, and then from
  \<^verbatim>\<open>Object.prototype\<close>.
\<close>

fun proto_of :: "heap \<Rightarrow> jsval \<Rightarrow> jsval" where
  "proto_of h (Builtin f) = ObjectPrototype"
| "proto_of h v = (if is_object v then obj_proto (cell h v) else Null)"

text \<open>
  \<^verbatim>\<open>OrdinaryGet\<close>: the read of \<open>k\<close> walking up from \<open>obj\<close>, for a receiver whose prototype is
  \<open>rp\<close>. The first argument bounds the length of the walk; prototype chains do not cycle,
  and a heap has no chain longer than its cells and the two built-in prototypes.
\<close>

fun chain_get :: "'f list \<Rightarrow> heap \<Rightarrow> jsval \<Rightarrow> jsval \<Rightarrow> string \<Rightarrow> jsval" where
  "chain_get [] h obj rp k = Undefined"
| "chain_get (f # fuel) h obj rp k =
     (if is_object obj
      then (case own_get (cell h obj) k of
              Some v \<Rightarrow> v
            | None \<Rightarrow>
                if is_object_prototype_cell (cell h obj) \<and> k = ''__proto__'' then rp
                else chain_get fuel h (obj_proto (cell h obj)) rp k)
      else (case obj of
              Builtin b \<Rightarrow> chain_get fuel h ObjectPrototype rp k
            | _ \<Rightarrow> Undefined))"

definition walk_bound :: "heap \<Rightarrow> jsobj list" where
  "walk_bound h = PlainObj [] # PlainObj [] # PlainObj [] # h"

definition js_get :: "heap \<Rightarrow> jsval \<Rightarrow> string \<Rightarrow> jsval" where
  "js_get h obj k = chain_get (walk_bound h) h obj (proto_of h obj) k"

text \<open>
  Where an assignment to \<^verbatim>\<open>__proto__\<close> lands, walking up from \<open>obj\<close>: on an own data
  property of that name (which \<^verbatim>\<open>JSON.parse\<close> and a spread create), on the accessor of
  \<^verbatim>\<open>Object.prototype\<close>, or nowhere (a chain that ends in \<^verbatim>\<open>null\<close>).
\<close>

datatype key_home = AsData | AsAccessor | Nowhere

fun find_proto_key :: "'f list \<Rightarrow> heap \<Rightarrow> jsval \<Rightarrow> key_home" where
  "find_proto_key [] h obj = Nowhere"
| "find_proto_key (f # fuel) h obj =
     (if is_object obj
      then (if map_of (obj_props (cell h obj)) ''__proto__'' \<noteq> None then AsData
            else if is_object_prototype_cell (cell h obj) then AsAccessor
            else find_proto_key fuel h (obj_proto (cell h obj)))
      else (case obj of
              Builtin b \<Rightarrow> find_proto_key fuel h ObjectPrototype
            | _ \<Rightarrow> Nowhere))"

fun proto_chain :: "'f list \<Rightarrow> heap \<Rightarrow> jsval \<Rightarrow> jsval list" where
  "proto_chain [] h v = []"
| "proto_chain (f # fuel) h v =
     (if is_object v then v # proto_chain fuel h (obj_proto (cell h v))
      else (case v of Builtin b \<Rightarrow> v # proto_chain fuel h ObjectPrototype | _ \<Rightarrow> []))"

fun can_be_prototype :: "jsval \<Rightarrow> bool" where
  "can_be_prototype Null = True"
| "can_be_prototype (Builtin f) = True"
| "can_be_prototype v = is_object v"

text \<open>
  The setter of \<^verbatim>\<open>__proto__\<close> on the object \<open>obj\<close>: a value that is neither an object nor
  \<^verbatim>\<open>null\<close> is ignored; \<^verbatim>\<open>Object.prototype\<close> keeps its prototype \<^verbatim>\<open>null\<close>; a cycle is
  refused. A refusal throws a TypeError.
\<close>

definition set_prototype :: "heap \<Rightarrow> jsval \<Rightarrow> jsval \<Rightarrow> error + heap" where
  "set_prototype h obj v =
     (if \<not> can_be_prototype v then Inr h
      else if v = obj_proto (cell h obj) then Inr h
      else if obj = ObjectPrototype then Inl TypeError
      else if obj \<in> set (proto_chain (walk_bound h) h v) then Inl TypeError
      else Inr (store_cell h obj (with_proto (cell h obj) v)))"


subsection \<open>Schemas, field states and sessions (formTypes.ts)\<close>

datatype schema_type = TypeName string | TypeNames "string list"

datatype JsonSchema =
  JsonSchema (stype: "schema_type option")
             (properties: "(string \<times> JsonSchema) list option")
             (required: "string list option")

text \<open>
  A field state is an object with the members \<^verbatim>\<open>path\<close>, \<^verbatim>\<open>value\<close>, \<^verbatim>\<open>schemaValid\<close>,
  \<^verbatim>\<open>messages\<close> and \<^verbatim>\<open>touched\<close>. The engine builds one by an object literal or by a
  spread of what it found at \<^verbatim>\<open>session.fields[path]\<close>, which need not be a field state,
  so a stored entry is a list of members; a member is a JavaScript value or the array of
  messages of a validation pass.
\<close>

datatype fval = JV jsval | Msgs "string list"

type_synonym FormFieldState = "(string \<times> fval) list"

definition field_state :: "string \<Rightarrow> jsval \<Rightarrow> fval \<Rightarrow> fval \<Rightarrow> bool \<Rightarrow> FormFieldState" where
  "field_state p v sv ms t =
     [(''path'', JV (Str p)), (''value'', JV v), (''schemaValid'', sv), (''messages'', ms),
      (''touched'', JV (Bool t))]"

definition path :: "FormFieldState \<Rightarrow> string" where
  "path e = (case map_of e ''path'' of Some (JV (Str p)) \<Rightarrow> p | _ \<Rightarrow> [])"

definition fvalue :: "FormFieldState \<Rightarrow> jsval" where
  "fvalue e = (case map_of e ''value'' of Some (JV v) \<Rightarrow> v | _ \<Rightarrow> Undefined)"

definition schemaValid :: "FormFieldState \<Rightarrow> bool" where
  "schemaValid e = (case map_of e ''schemaValid'' of Some (JV v) \<Rightarrow> truthy v | Some (Msgs ms) \<Rightarrow> True | None \<Rightarrow> False)"

definition messages :: "FormFieldState \<Rightarrow> string list" where
  "messages e = (case map_of e ''messages'' of Some (Msgs ms) \<Rightarrow> ms | _ \<Rightarrow> [])"

definition touched :: "FormFieldState \<Rightarrow> bool" where
  "touched e = (case map_of e ''touched'' of Some (JV v) \<Rightarrow> truthy v | Some (Msgs ms) \<Rightarrow> True | None \<Rightarrow> False)"

datatype FormStatus = NotStarted | InProgress | Complete

datatype FormOverallValidity = Unknown | Valid | Invalid

record FormDefinition =
  def_id :: string
  def_name :: string
  schema :: JsonSchema

text \<open>
  \<open>data\<close> and \<open>fields_rec\<close> are the own properties of the objects \<^verbatim>\<open>session.data\<close> and
  \<^verbatim>\<open>session.fields\<close>. Both objects are created with the prototype \<^verbatim>\<open>Object.prototype\<close>, and
  an assignment at the key \<^verbatim>\<open>__proto__\<close> replaces it: \<open>dataPrototype\<close> is the prototype of
  \<^verbatim>\<open>session.data\<close>, and \<open>fieldsPrototype\<close> is the field state that has become the prototype of
  \<^verbatim>\<open>session.fields\<close>, if any.
\<close>

record FormSession =
  sessionId :: string
  userId :: "string option"
  formId :: string
  definitionSnapshot :: FormDefinition
  data :: "(string \<times> jsval) list"
  dataPrototype :: jsval
  fields_rec :: "string \<rightharpoonup> FormFieldState"
  fieldsPrototype :: "FormFieldState option"
  status :: FormStatus
  overallValidity :: FormOverallValidity
  questionOrder :: "string list"
  currentQuestionIndex :: int

subsection \<open>Question order (deriveQuestionOrder)\<close>

text \<open>
  \<open>properties\<close> lists the members of the schema's \<^verbatim>\<open>properties\<close> record in the order of
  \<^verbatim>\<open>Object.keys\<close>. The loop pushes each child path and then the paths of the recursive
  call onto \<^verbatim>\<open>paths\<close>.
\<close>

definition childPath :: "string \<Rightarrow> string \<Rightarrow> string" where
  "childPath basePath key = (if basePath \<noteq> [] then basePath @ ''.'' @ key else key)"

fun deriveQuestionOrder :: "JsonSchema \<Rightarrow> string \<Rightarrow> string list"
  and derive_loop :: "(string \<times> JsonSchema) list \<Rightarrow> string \<Rightarrow> string list \<Rightarrow> string list"
where
  "deriveQuestionOrder (JsonSchema t ps r) basePath =
     (if t = Some (TypeName ''object'') \<and> ps \<noteq> None
      then derive_loop (case ps of Some kvs \<Rightarrow> kvs | None \<Rightarrow> []) basePath []
      else [])"
| "derive_loop [] basePath paths = paths"
| "derive_loop ((key, child) # rest) basePath paths =
     derive_loop rest basePath
       ((paths @ [childPath basePath key]) @ deriveQuestionOrder child (childPath basePath key))"

subsection \<open>Navigation\<close>

definition moveToNextQuestion :: "FormSession \<Rightarrow> FormSession" where
  "moveToNextQuestion s =
     (if currentQuestionIndex s < int (length (questionOrder s)) - 1
      then s\<lparr>currentQuestionIndex := currentQuestionIndex s + 1\<rparr> else s)"

definition moveToPreviousQuestion :: "FormSession \<Rightarrow> FormSession" where
  "moveToPreviousQuestion s =
     (if currentQuestionIndex s > 0
      then s\<lparr>currentQuestionIndex := currentQuestionIndex s - 1\<rparr> else s)"

definition getCurrentQuestionPath :: "FormSession \<Rightarrow> string option" where
  "getCurrentQuestionPath s =
     (if 0 \<le> currentQuestionIndex s \<and> currentQuestionIndex s < int (length (questionOrder s))
      then Some (questionOrder s ! nat (currentQuestionIndex s)) else None)"

datatype nav = MoveNext | MovePrevious

fun navigate :: "nav \<Rightarrow> FormSession \<Rightarrow> FormSession" where
  "navigate MoveNext s = moveToNextQuestion s"
| "navigate MovePrevious s = moveToPreviousQuestion s"

definition navigate_all :: "nav list \<Rightarrow> FormSession \<Rightarrow> FormSession" where
  "navigate_all ns s = foldl (\<lambda>s n. navigate n s) s ns"

subsection \<open>The runtime: Ajv and array lengths\<close>

text \<open>
  Two parts of the JavaScript runtime are parameters of the model. \<open>ajv_compile\<close> stands
  for \<^verbatim>\<open>ajv.compile(schema)\<close>: \<open>None\<close> when compilation throws, otherwise the validating
  function, which reads the document from the heap. \<open>to_length\<close> is the numeric conversion
  of a string, or of an object whose conversion to a primitive calls a function other than
  those of \<^verbatim>\<open>Object.prototype\<close>, when it is assigned to the \<^verbatim>\<open>length\<close> of an array.
\<close>

record ErrorObject =
  instancePath :: string
  message :: "string option"

record validation =
  valid :: bool
  errors :: "ErrorObject list option"

record runtime =
  ajv_compile :: "JsonSchema \<Rightarrow> (heap \<Rightarrow> jsval \<Rightarrow> validation) option"
  to_length :: "heap \<Rightarrow> jsval \<Rightarrow> nat option"

text \<open>
  Assigning \<^verbatim>\<open>length\<close> of an array throws a RangeError unless the value converts to an
  integer in \<open>[0, 2^32)\<close>. An object is converted through its \<^verbatim>\<open>valueOf\<close> and then its
  \<^verbatim>\<open>toString\<close>: \<^verbatim>\<open>Object.prototype.valueOf\<close> returns the object itself, the text of
  \<^verbatim>\<open>Object.prototype.toString\<close> is not a number, and an object with neither function
  throws a TypeError.
\<close>

definition converted_length :: "runtime \<Rightarrow> heap \<Rightarrow> jsval \<Rightarrow> error + nat" where
  "converted_length rt h v = (case to_length rt h v of None \<Rightarrow> Inl RangeError | Some m \<Rightarrow> Inr m)"

definition length_by_toString :: "runtime \<Rightarrow> heap \<Rightarrow> jsval \<Rightarrow> error + nat" where
  "length_by_toString rt h v =
     (case js_get h v ''toString'' of
        Builtin f \<Rightarrow>
          if f = ''Object.prototype.toString'' then Inl RangeError else converted_length rt h v
      | _ \<Rightarrow> Inl TypeError)"

definition array_length_of :: "runtime \<Rightarrow> heap \<Rightarrow> jsval \<Rightarrow> error + nat" where
  "array_length_of rt h v =
     (case v of
        Undefined \<Rightarrow> Inl RangeError
      | Null \<Rightarrow> Inr 0
      | Bool b \<Rightarrow> Inr (if b then 1 else 0)
      | Num n \<Rightarrow> (if 0 \<le> n \<and> n < 4294967296 then Inr (nat n) else Inl RangeError)
      | Str s \<Rightarrow> converted_length rt h v
      | _ \<Rightarrow>
          (case js_get h v ''valueOf'' of
             Builtin f \<Rightarrow>
               if f = ''Object.prototype.valueOf'' then length_by_toString rt h v
               else converted_length rt h v
           | _ \<Rightarrow> length_by_toString rt h v))"

definition keeps_below :: "nat \<Rightarrow> string \<times> jsval \<Rightarrow> bool" where
  "keeps_below m kv = (case array_index (fst kv) of None \<Rightarrow> True | Some i \<Rightarrow> i < m)"

text \<open>
  \<open>own_put\<close> creates or updates an own data property of the object; an array adjusts its
  \<^verbatim>\<open>length\<close>. \<open>js_put\<close> is the assignment \<^verbatim>\<open>obj[k] = v\<close>: at the key \<^verbatim>\<open>__proto__\<close> it calls
  the inherited setter unless a data property of that name comes first; every other
  inherited member is a writable data property, so the assignment lands on the object.
\<close>

definition own_put :: "runtime \<Rightarrow> heap \<Rightarrow> jsval \<Rightarrow> string \<Rightarrow> jsval \<Rightarrow> error + heap" where
  "own_put rt h obj k v =
     (case obj_length (cell h obj) of
        None \<Rightarrow> Inr (store_cell h obj (with_props (cell h obj) 0 (prop_put (obj_props (cell h obj)) k v)))
      | Some n \<Rightarrow>
          if k = ''length''
          then (case array_length_of rt h v of
                  Inl e \<Rightarrow> Inl e
                | Inr m \<Rightarrow>
                    Inr (store_cell h obj
                           (with_props (cell h obj) m (filter (keeps_below m) (obj_props (cell h obj))))))
          else Inr (store_cell h obj
                      (with_props (cell h obj)
                         (case array_index k of None \<Rightarrow> n | Some i \<Rightarrow> max n (Suc i))
                         (prop_put (obj_props (cell h obj)) k v))))"

definition js_put :: "runtime \<Rightarrow> heap \<Rightarrow> jsval \<Rightarrow> string \<Rightarrow> jsval \<Rightarrow> error + heap" where
  "js_put rt h obj k v =
     (if k = ''__proto__'' \<and> find_proto_key (walk_bound h) h obj = AsAccessor
      then set_prototype h obj v
      else own_put rt h obj k v)"

subsection \<open>Document reconstruction (setDeepValue)\<close>

fun split_path :: "string \<Rightarrow> string list" where
  "split_path [] = [[]]"
| "split_path (c # cs) =
     (if c = CHR ''.'' then [] # split_path cs
      else (case split_path cs of [] \<Rightarrow> [[c]] | w # ws \<Rightarrow> (c # w) # ws))"

text \<open>
  The loop of \<^verbatim>\<open>setDeepValue\<close> over \<^verbatim>\<open>parts\<close>, with \<^verbatim>\<open>current\<close> the container reached so
  far. A failed assignment throws at the heap of that moment.
\<close>

fun setDeepLoop :: "runtime \<Rightarrow> heap \<Rightarrow> jsval \<Rightarrow> string list \<Rightarrow> jsval \<Rightarrow> (unit, heap) outcome" where
  "setDeepLoop rt h current [] v = Returned () h"
| "setDeepLoop rt h current (key # rest) v =
     (if rest = []
      then (case js_put rt h current key v of
              Inl e \<Rightarrow> Threw e h
            | Inr h' \<Rightarrow> Returned () h')
      else (if \<not> truthy (js_get h current key) \<or> js_typeof (js_get h current key) \<noteq> ''object''
            then (case js_put rt (h @ [PlainObj []]) current key (Ref (length h)) of
                    Inl e \<Rightarrow> Threw e (h @ [PlainObj []])
                  | Inr h' \<Rightarrow> setDeepLoop rt h' (js_get h' current key) rest v)
            else setDeepLoop rt h (js_get h current key) rest v))"

definition setDeepValue :: "runtime \<Rightarrow> heap \<Rightarrow> nat \<Rightarrow> string \<Rightarrow> jsval \<Rightarrow> (unit, heap) outcome" where
  "setDeepValue rt h target p v = setDeepLoop rt h (Ref target) (split_path p) v"

text \<open>The loop over \<^verbatim>\<open>Object.entries(session.data)\<close>.\<close>

fun reconstruct :: "runtime \<Rightarrow> heap \<Rightarrow> nat \<Rightarrow> (string \<times> jsval) list \<Rightarrow> (unit, heap) outcome" where
  "reconstruct rt h grouped [] = Returned () h"
| "reconstruct rt h grouped ((p, v) # rest) =
     (case setDeepValue rt h grouped p v of
        Threw e h' \<Rightarrow> Threw e h'
      | Returned u h' \<Rightarrow> reconstruct rt h' grouped rest)"

text \<open>Reading a path back from a document.\<close>

fun resolve :: "heap \<Rightarrow> jsval \<Rightarrow> string list \<Rightarrow> jsval" where
  "resolve h v [] = v"
| "resolve h v (k # ks) = (if is_object v then resolve h (js_get h v k) ks else Undefined)"

subsection \<open>Reads and writes of \<^verbatim>\<open>session.data\<close> and \<^verbatim>\<open>session.fields\<close>\<close>

text \<open>
  \<^verbatim>\<open>session.data[path] = value\<close>. At the key \<^verbatim>\<open>__proto__\<close>, unless \<^verbatim>\<open>session.data\<close> has or
  inherits a data property of that name, the assignment calls the setter of
  \<^verbatim>\<open>Object.prototype\<close>, which replaces the prototype of \<^verbatim>\<open>session.data\<close> by an object or
  \<^verbatim>\<open>null\<close> and ignores every other value.
\<close>

definition data_put :: "heap \<Rightarrow> FormSession \<Rightarrow> string \<Rightarrow> jsval \<Rightarrow> FormSession" where
  "data_put h s p v =
     (if p = ''__proto__'' \<and> map_of (data s) p = None
         \<and> find_proto_key (walk_bound h) h (dataPrototype s) = AsAccessor
      then (if can_be_prototype v then s\<lparr>dataPrototype := v\<rparr> else s)
      else s\<lparr>data := prop_put (data s) p v\<rparr>)"

text \<open>The read \<^verbatim>\<open>session.data[path]\<close>.\<close>

definition data_at :: "heap \<Rightarrow> FormSession \<Rightarrow> string \<Rightarrow> jsval" where
  "data_at h s p =
     (case map_of (data s) p of
        Some v \<Rightarrow> v
      | None \<Rightarrow> chain_get (walk_bound h) h (dataPrototype s) (dataPrototype s) p)"

text \<open>
  What the read \<^verbatim>\<open>session.fields[path]\<close> finds: a field state (an own entry, or the
  prototype of \<^verbatim>\<open>session.fields\<close> itself at the key \<^verbatim>\<open>__proto__\<close>), or another value: a member
  of the field state that is the prototype, a member of \<^verbatim>\<open>Object.prototype\<close>, or
  \<^verbatim>\<open>undefined\<close>.
\<close>

datatype looked = FoundState FormFieldState | FoundValue fval

definition inherited_field :: "heap \<Rightarrow> FormSession \<Rightarrow> string \<Rightarrow> looked" where
  "inherited_field h s p =
     (case (case fieldsPrototype s of None \<Rightarrow> None | Some u \<Rightarrow> map_of u p) of
        Some fv \<Rightarrow> FoundValue fv
      | None \<Rightarrow>
          if p = ''__proto__''
          then (case fieldsPrototype s of
                  None \<Rightarrow> FoundValue (JV ObjectPrototype)
                | Some u \<Rightarrow> FoundState u)
          else FoundValue (JV (js_get h ObjectPrototype p)))"

definition field_lookup :: "heap \<Rightarrow> FormSession \<Rightarrow> string \<Rightarrow> looked" where
  "field_lookup h s p =
     (case fields_rec s p of Some e \<Rightarrow> FoundState e | None \<Rightarrow> inherited_field h s p)"

text \<open>
  \<^verbatim>\<open>session.fields[path] = entry\<close>. At the key \<^verbatim>\<open>__proto__\<close> the entry becomes the prototype
  of \<^verbatim>\<open>session.fields\<close>, unless \<^verbatim>\<open>session.fields\<close> has an own property of that name or its
  prototype has a member of that name.
\<close>

definition field_put :: "FormSession \<Rightarrow> string \<Rightarrow> FormFieldState \<Rightarrow> FormSession" where
  "field_put s p e =
     (if p = ''__proto__'' \<and> fields_rec s p = None
         \<and> (case fieldsPrototype s of None \<Rightarrow> True | Some u \<Rightarrow> map_of u p = None)
      then s\<lparr>fieldsPrototype := Some e\<rparr>
      else s\<lparr>fields_rec := (fields_rec s)(p \<mapsto> e)\<rparr>)"

fun nullish :: "looked \<Rightarrow> bool" where
  "nullish (FoundValue (JV Undefined)) = True"
| "nullish (FoundValue (JV Null)) = True"
| "nullish x = False"

text \<open>
  \<^verbatim>\<open>existing?.k\<close> for the keys \<^verbatim>\<open>schemaValid\<close> and \<^verbatim>\<open>messages\<close>, which no string, number,
  boolean, function or array has unless \<^verbatim>\<open>Object.prototype\<close> or \<^verbatim>\<open>Array.prototype\<close> was
  given one; and \<^verbatim>\<open>x ?? d\<close>.
\<close>

definition member :: "heap \<Rightarrow> looked \<Rightarrow> string \<Rightarrow> fval" where
  "member h x k =
     (if nullish x then JV Undefined
      else (case x of
              FoundState e \<Rightarrow>
                (case map_of e k of Some fv \<Rightarrow> fv | None \<Rightarrow> JV (js_get h ObjectPrototype k))
            | FoundValue (Msgs ms) \<Rightarrow> JV (js_get h ArrayPrototype k)
            | FoundValue (JV v) \<Rightarrow>
                JV (if is_object v then js_get h v k else js_get h ObjectPrototype k)))"

definition or_default :: "fval \<Rightarrow> fval \<Rightarrow> fval" where
  "or_default fv d = (if fv = JV Undefined \<or> fv = JV Null then d else fv)"

text \<open>
  The spread \<^verbatim>\<open>{...existing}\<close> copies the own enumerable properties: the members of a field
  state, the elements of an array and the characters of a string under their indices,
  and nothing of a number, a boolean or a function.
\<close>

function decimal :: "nat \<Rightarrow> string" where
  "decimal n =
     (if n < 10 then [''0123456789'' ! n]
      else decimal (n div 10) @ [''0123456789'' ! (n mod 10)])"
  by pat_completeness auto
termination by (relation "measure id") auto

declare decimal.simps [simp del]

definition indexed :: "fval list \<Rightarrow> (string \<times> fval) list" where
  "indexed xs = zip (map decimal [0..<length xs]) xs"

definition enumerable :: "jsobj \<Rightarrow> (string \<times> jsval) list" where
  "enumerable c =
     (if is_object_prototype_cell c
      then filter (\<lambda>kv. fst kv \<notin> set object_prototype_members) (obj_props c)
      else if is_array_prototype_cell c
      then filter (\<lambda>kv. fst kv \<notin> set array_prototype_members) (obj_props c)
      else obj_props c)"

definition spread :: "heap \<Rightarrow> looked \<Rightarrow> FormFieldState" where
  "spread h x =
     (case x of
        FoundState e \<Rightarrow> e
      | FoundValue (Msgs ms) \<Rightarrow> indexed (map (\<lambda>m. JV (Str m)) ms)
      | FoundValue (JV v) \<Rightarrow>
          (case v of
             Str t \<Rightarrow> indexed (map (\<lambda>c. JV (Str [c])) t)
           | _ \<Rightarrow> if is_object v then map (\<lambda>kv. (fst kv, JV (snd kv))) (enumerable (cell h v))
                  else []))"

subsection \<open>Validation (runSchemaValidation)\<close>

definition normalizeAjvPath :: "string \<Rightarrow> string" where
  "normalizeAjvPath ip =
     (if ip = [] then []
      else map (\<lambda>c. if c = CHR ''/'' then CHR ''.'' else c)
               (if hd ip = CHR ''/'' then tl ip else ip))"

definition error_message :: "ErrorObject \<Rightarrow> string" where
  "error_message err = (case message err of None \<Rightarrow> ''Validation error'' | Some m \<Rightarrow> m)"

definition add_error :: "(string \<rightharpoonup> string list) \<Rightarrow> ErrorObject \<Rightarrow> (string \<rightharpoonup> string list)" where
  "add_error fe err =
     (let p = normalizeAjvPath (instancePath err);
          fe1 = (if fe p = None then fe(p \<mapsto> []) else fe)
      in fe1(p \<mapsto> (case fe1 p of None \<Rightarrow> [] | Some ms \<Rightarrow> ms) @ [error_message err]))"

definition fieldErrors :: "ErrorObject list \<Rightarrow> (string \<rightharpoonup> string list)" where
  "fieldErrors errs = foldl add_error Map.empty errs"

text \<open>
  One round of the loop over \<^verbatim>\<open>session.questionOrder\<close>: the default entry is used when the
  read of \<^verbatim>\<open>session.fields[path]\<close> gives \<^verbatim>\<open>undefined\<close> or \<^verbatim>\<open>null\<close>.
\<close>

definition rewrite_field ::
  "heap \<Rightarrow> (string \<rightharpoonup> string list) \<Rightarrow> FormSession \<Rightarrow> string \<Rightarrow> FormSession" where
  "rewrite_field h fe s p =
     (let existing = (if nullish (field_lookup h s p)
                      then FoundState (field_state p Undefined (JV (Bool True)) (Msgs []) False)
                      else field_lookup h s p);
          errs = (case fe p of None \<Rightarrow> [] | Some ms \<Rightarrow> ms)
      in field_put s p
           (prop_put (prop_put (spread h existing) ''schemaValid'' (JV (Bool (length errs = 0))))
              ''messages'' (Msgs errs)))"

text \<open>
  The first half of \<^verbatim>\<open>runSchemaValidation\<close>: a fresh \<^verbatim>\<open>grouped\<close> object, the reconstruction,
  compilation and the run of the validator. It yields the validator's result.
\<close>

definition validate_document ::
  "runtime \<Rightarrow> heap \<Rightarrow> FormSession \<Rightarrow> (validation, heap) outcome" where
  "validate_document rt h s =
     (case reconstruct rt (h @ [PlainObj []]) (length h) (data s) of
        Threw e h1 \<Rightarrow> Threw e h1
      | Returned u h1 \<Rightarrow>
          (case ajv_compile rt (schema (definitionSnapshot s)) of
             None \<Rightarrow> Threw CompileError h1
           | Some validate \<Rightarrow> Returned (validate h1 (Ref (length h))) h1))"

definition apply_validation :: "heap \<Rightarrow> validation \<Rightarrow> FormSession \<Rightarrow> FormSession" where
  "apply_validation h res s =
     (let errs = (case errors res of None \<Rightarrow> [] | Some es \<Rightarrow> es);
          fe = fieldErrors errs;
          s1 = foldl (rewrite_field h fe) s (questionOrder s);
          s2 = s1\<lparr>overallValidity := (if valid res then Valid else Invalid)\<rparr>
      in if valid res then s2\<lparr>status := Complete\<rparr> else s2)"

definition runSchemaValidation ::
  "runtime \<Rightarrow> heap \<times> FormSession \<Rightarrow> (unit, heap \<times> FormSession) outcome" where
  "runSchemaValidation rt w =
     (case validate_document rt (fst w) (snd w) of
        Threw e h1 \<Rightarrow> Threw e (h1, snd w)
      | Returned res h1 \<Rightarrow> Returned () (h1, apply_validation h1 res (snd w)))"

subsection \<open>The field mutator (setFieldValue)\<close>

text \<open>The statements of \<^verbatim>\<open>setFieldValue\<close> before its call of \<^verbatim>\<open>runSchemaValidation\<close>.\<close>

definition record_answer :: "heap \<Rightarrow> FormSession \<Rightarrow> string \<Rightarrow> jsval \<Rightarrow> FormSession" where
  "record_answer h s p v =
     (let s1 = data_put h s p v;
          existing = field_lookup h s1 p;
          updated = field_state p v
                      (or_default (member h existing ''schemaValid'') (JV (Bool False)))
                      (or_default (member h existing ''messages'') (Msgs []))
                      True;
          s2 = field_put s1 p updated
      in if status s2 = NotStarted then s2\<lparr>status := InProgress\<rparr> else s2)"

definition setFieldValue ::
  "runtime \<Rightarrow> heap \<times> FormSession \<Rightarrow> string \<Rightarrow> jsval \<Rightarrow> (unit, heap \<times> FormSession) outcome" where
  "setFieldValue rt w p v = runSchemaValidation rt (fst w, record_answer (fst w) (snd w) p v)"

subsection \<open>Sequences of engine operations\<close>

datatype op = SetField string jsval | RunValidation | Navigate nav

fun apply_op :: "runtime \<Rightarrow> op \<Rightarrow> heap \<times> FormSession \<Rightarrow> (unit, heap \<times> FormSession) outcome" where
  "apply_op rt (SetField p v) w = setFieldValue rt w p v"
| "apply_op rt RunValidation w = runSchemaValidation rt w"
| "apply_op rt (Navigate n) w = Returned () (fst w, navigate n (snd w))"

text \<open>
  A call that throws leaves the session as it was at the throw; the next call works on
  that session.
\<close>

definition run_ops :: "runtime \<Rightarrow> op list \<Rightarrow> heap \<times> FormSession \<Rightarrow> heap \<times> FormSession" where
  "run_ops rt ops w = foldl (\<lambda>w x. state_of (apply_op rt x w)) w ops"

subsection \<open>The store (InMemoryFormStore)\<close>

record InMemoryFormStore =
  forms :: "string \<rightharpoonup> FormDefinition"
  sessions :: "string \<rightharpoonup> FormSession"

definition registerForm :: "InMemoryFormStore \<Rightarrow> FormDefinition \<Rightarrow> InMemoryFormStore" where
  "registerForm st d = st\<lparr>forms := (forms st)(def_id d \<mapsto> d)\<rparr>"

definition getForm :: "InMemoryFormStore \<Rightarrow> string \<Rightarrow> FormDefinition option" where
  "getForm st i = forms st i"

definition getSession :: "InMemoryFormStore \<Rightarrow> string \<Rightarrow> FormSession option" where
  "getSession st i = sessions st i"

text \<open>
  Modelled from the spec: the function \<^verbatim>\<open>uuidv4\<close> of the package \<^verbatim>\<open>uuid\<close>, which
  \<^verbatim>\<open>createSession\<close> calls and whose code is not among the sources. The specification calls
  the session id ``globally unique, generated at creation'' and says that \<^verbatim>\<open>createSession\<close>
  ``allocates a fresh unique session id''. The generator is modelled by its state, the
  number of ids issued so far: a call returns an id that no earlier call has returned,
  and the next state.
\<close>

definition uuidv4 :: "nat \<Rightarrow> string \<times> nat" where
  "uuidv4 n = (''session-'' @ decimal n, Suc n)"

definition new_session :: "string \<Rightarrow> string option \<Rightarrow> string \<Rightarrow> FormDefinition \<Rightarrow> FormSession" where
  "new_session uuid uid fid form =
     \<lparr>sessionId = uuid, userId = uid, formId = fid, definitionSnapshot = form,
      data = [], dataPrototype = ObjectPrototype, fields_rec = Map.empty,
      fieldsPrototype = None, status = NotStarted, overallValidity = Unknown,
      questionOrder = deriveQuestionOrder (schema form) [], currentQuestionIndex = 0\<rparr>"

text \<open>
  \<^verbatim>\<open>createSession\<close> on the state of the generator and the store. The throw comes before
  the call of \<^verbatim>\<open>uuidv4\<close> and before the store is written.
\<close>

definition createSession ::
  "nat \<times> InMemoryFormStore \<Rightarrow> string \<Rightarrow> string option
     \<Rightarrow> (FormSession, nat \<times> InMemoryFormStore) outcome" where
  "createSession w fid uid =
     (case forms (snd w) fid of
        None \<Rightarrow> Threw (Error (''Form not found: '' @ fid)) w
      | Some form \<Rightarrow>
          (let g = uuidv4 (fst w);
               session = new_session (fst g) uid fid form
           in Returned session
                (snd g, (snd w)\<lparr>sessions := (sessions (snd w))(fst g \<mapsto> session)\<rparr>)))"

datatype store_op = RegisterForm FormDefinition | CreateSession string "string option"

fun apply_store_op :: "nat \<times> InMemoryFormStore \<Rightarrow> store_op \<Rightarrow> nat \<times> InMemoryFormStore" where
  "apply_store_op w (RegisterForm d) = (fst w, registerForm (snd w) d)"
| "apply_store_op w (CreateSession fid uid) = state_of (createSession w fid uid)"

definition new_store :: "nat \<times> InMemoryFormStore" where
  "new_store = (0, \<lparr>forms = Map.empty, sessions = Map.empty\<rparr>)"

definition run_store :: "store_op list \<Rightarrow> nat \<times> InMemoryFormStore" where
  "run_store ops = foldl apply_store_op new_store ops"

subsection \<open>A concrete runtime\<close>

text \<open>
  To evaluate the engine at concrete inputs the runtime is instantiated with the
  behaviour of Ajv (\<^verbatim>\<open>allErrors: true\<close>) on the keywords \<^verbatim>\<open>type\<close>, \<^verbatim>\<open>required\<close> and
  \<^verbatim>\<open>properties\<close>: a failed \<^verbatim>\<open>type\<close> reports \<^verbatim>\<open>must be T\<close> at the instance and skips the
  other keywords; for an object each missing required member is reported at the object
  and each present member is checked under its own pointer. Ajv reads members through
  the prototype chain and writes the instance path as a JSON pointer, in which \<^verbatim>\<open>~\<close> and
  \<^verbatim>\<open>/\<close> inside a property name are escaped as \<^verbatim>\<open>~0\<close> and \<^verbatim>\<open>~1\<close>. The length conversion of the
  concrete runtime accepts canonical decimal strings.
\<close>

definition is_json_object :: "heap \<Rightarrow> jsval \<Rightarrow> bool" where
  "is_json_object h v = (is_object v \<and> obj_length (cell h v) = None)"

definition json_type_ok :: "heap \<Rightarrow> string \<Rightarrow> jsval \<Rightarrow> bool" where
  "json_type_ok h t v =
     (case v of
        Str s \<Rightarrow> t = ''string''
      | Num n \<Rightarrow> t = ''number'' \<or> t = ''integer''
      | Bool b \<Rightarrow> t = ''boolean''
      | Null \<Rightarrow> t = ''null''
      | Undefined \<Rightarrow> False
      | Builtin f \<Rightarrow> False
      | _ \<Rightarrow> if is_json_object h v then t = ''object'' else t = ''array'')"

fun type_matches :: "heap \<Rightarrow> schema_type \<Rightarrow> jsval \<Rightarrow> bool" where
  "type_matches h (TypeName t) v = json_type_ok h t v"
| "type_matches h (TypeNames ts) v = list_ex (\<lambda>t. json_type_ok h t v) ts"

fun type_text :: "schema_type \<Rightarrow> string" where
  "type_text (TypeName t) = t"
| "type_text (TypeNames ts) = foldr (\<lambda>t acc. if acc = [] then t else t @ '','' @ acc) ts []"

definition escape_pointer :: "string \<Rightarrow> string" where
  "escape_pointer k =
     concat (map (\<lambda>c. if c = CHR ''~'' then ''~0'' else if c = CHR ''/'' then ''~1'' else [c]) k)"

definition missing_required :: "heap \<Rightarrow> jsval \<Rightarrow> string \<Rightarrow> string list \<Rightarrow> ErrorObject list" where
  "missing_required h v ip req =
     map (\<lambda>k. \<lparr>instancePath = ip,
                message = Some (''must have required property '' @ [CHR 0x27] @ k @ [CHR 0x27])\<rparr>)
         (filter (\<lambda>k. js_get h v k = Undefined) req)"

fun check_schema :: "heap \<Rightarrow> JsonSchema \<Rightarrow> string \<Rightarrow> jsval \<Rightarrow> ErrorObject list"
  and check_props :: "heap \<Rightarrow> (string \<times> JsonSchema) list \<Rightarrow> string \<Rightarrow> jsval \<Rightarrow> ErrorObject list"
where
  "check_schema h (JsonSchema t ps r) ip v =
     (if (case t of None \<Rightarrow> False | Some ty \<Rightarrow> \<not> type_matches h ty v)
      then [\<lparr>instancePath = ip,
              message = Some (''must be '' @ (case t of None \<Rightarrow> [] | Some ty \<Rightarrow> type_text ty))\<rparr>]
      else if is_json_object h v
      then missing_required h v ip (case r of None \<Rightarrow> [] | Some req \<Rightarrow> req)
           @ (case ps of None \<Rightarrow> [] | Some kvs \<Rightarrow> check_props h kvs ip v)
      else [])"
| "check_props h [] ip v = []"
| "check_props h ((k, sub) # rest) ip v =
     (if js_get h v k = Undefined then []
      else check_schema h sub (ip @ ''/'' @ escape_pointer k) (js_get h v k))
     @ check_props h rest ip v"

definition ajv_validate :: "JsonSchema \<Rightarrow> heap \<Rightarrow> jsval \<Rightarrow> validation" where
  "ajv_validate sch h v =
     (let es = check_schema h sch [] v
      in \<lparr>valid = (es = []), errors = (if es = [] then None else Some es)\<rparr>)"

definition decimal_length :: "heap \<Rightarrow> jsval \<Rightarrow> nat option" where
  "decimal_length h v = (case v of Str s \<Rightarrow> array_index s | _ \<Rightarrow> None)"

definition ajv_runtime :: runtime where
  "ajv_runtime = \<lparr>ajv_compile = (\<lambda>sch. Some (ajv_validate sch)), to_length = decimal_length\<rparr>"

subsection \<open>Notions of the specification\<close>

text \<open>
  The violations of a validation pass that belong to a path, in the words of the
  specification: each violation carries an instance path, a pointer; its segments,
  joined with dots and without a leading separator, give the path of the violation, and
  the violations are grouped by that path. The segments of a JSON pointer are the parts
  between the slashes, with \<^verbatim>\<open>~1\<close> read as a slash and \<^verbatim>\<open>~0\<close> as a tilde.
\<close>

fun split_slash :: "string \<Rightarrow> string list" where
  "split_slash [] = [[]]"
| "split_slash (c # cs) =
     (if c = CHR ''/'' then [] # split_slash cs
      else (case split_slash cs of [] \<Rightarrow> [[c]] | w # ws \<Rightarrow> (c # w) # ws))"

fun unescape_pointer :: "string \<Rightarrow> string" where
  "unescape_pointer (a # b # cs) =
     (if a = CHR ''~'' \<and> b = CHR ''1'' then CHR ''/'' # unescape_pointer cs
      else if a = CHR ''~'' \<and> b = CHR ''0'' then CHR ''~'' # unescape_pointer cs
      else a # unescape_pointer (b # cs))"
| "unescape_pointer cs = cs"

definition pointer_segments :: "string \<Rightarrow> string list" where
  "pointer_segments ip = (if ip = [] then [] else map unescape_pointer (tl (split_slash ip)))"

fun join_dots :: "string list \<Rightarrow> string" where
  "join_dots [] = []"
| "join_dots [w] = w"
| "join_dots (w # ws) = w @ ''.'' @ join_dots ws"

definition pass_errors :: "validation \<Rightarrow> ErrorObject list" where
  "pass_errors res = (case errors res of None \<Rightarrow> [] | Some es \<Rightarrow> es)"

definition violation_messages :: "validation \<Rightarrow> string \<Rightarrow> string list" where
  "violation_messages res p =
     map error_message
       (filter (\<lambda>e. join_dots (pointer_segments (instancePath e)) = p) (pass_errors res))"

text \<open>The messages that the code has grouped under a path.\<close>

definition lookup_msgs :: "(string \<rightharpoonup> string list) \<Rightarrow> string \<Rightarrow> string list" where
  "lookup_msgs fe p = (case fe p of None \<Rightarrow> [] | Some ms \<Rightarrow> ms)"




definition in_bounds :: "FormSession \<Rightarrow> bool" where
  "in_bounds s = (0 \<le> currentQuestionIndex s
      \<and> currentQuestionIndex s \<le> max 0 (int (length (questionOrder s)) - 1))"


subsection \<open>Example inputs\<close>

text \<open>The schema \<^verbatim>\<open>{object: {a: string, b: {object: {c: string}}}}\<close> and a session for it.\<close>

definition example_schema :: JsonSchema where
  "example_schema =
     JsonSchema (Some (TypeName ''object''))
       (Some [(''a'', JsonSchema (Some (TypeName ''string'')) None None),
              (''b'', JsonSchema (Some (TypeName ''object''))
                        (Some [(''c'', JsonSchema (Some (TypeName ''string'')) None None)]) None)])
       None"

definition example_form :: FormDefinition where
  "example_form = \<lparr>def_id = ''example'', def_name = ''Example'', schema = example_schema\<rparr>"

definition example_session :: FormSession where
  "example_session = new_session ''session-1'' None ''example'' example_form"

text \<open>A session whose answers hold an array, and a path through the length of that array.\<close>

definition array_heap :: heap where
  "array_heap = [ArrayObj 1 [(''0'', Str ''x'')]]"

definition array_session :: FormSession where
  "array_session = example_session\<lparr>data := [(''tags'', Ref 0), (''tags.length.x'', Num 1)]\<rparr>"







text \<open>A form whose only question has a tilde in its name.\<close>

definition tilde_schema :: JsonSchema where
  "tilde_schema =
     JsonSchema (Some (TypeName ''object''))
       (Some [(''a~b'', JsonSchema (Some (TypeName ''string'')) None None)]) None"

definition tilde_session :: FormSession where
  "tilde_session =
     new_session ''session-4'' None ''tilde''
       \<lparr>def_id = ''tilde'', def_name = ''Tilde'', schema = tilde_schema\<rparr>"

definition tilde_answered :: FormSession where
  "tilde_answered = tilde_session\<lparr>data := [(''a~b'', Num 5)]\<rparr>"

definition tilde_rejection :: validation where
  "tilde_rejection =
     \<lparr>valid = False,
      errors = Some [\<lparr>instancePath = ''/a~0b'', message = Some ''must be string''\<rparr>]\<rparr>"

text \<open>
  A form with nested objects \<^verbatim>\<open>a.b.c.d\<close>, a session for it, a sequence of answers given
  through \<open>setFieldValue\<close> (the heap holds the three empty objects that the caller passes
  as answers), and a session of the same form with three answers, two of them objects.
\<close>

definition nested_schema :: JsonSchema where
  "nested_schema =
     JsonSchema (Some (TypeName ''object''))
       (Some [(''a'', JsonSchema (Some (TypeName ''object''))
          (Some [(''b'', JsonSchema (Some (TypeName ''object''))
             (Some [(''c'', JsonSchema (Some (TypeName ''object''))
                (Some [(''d'', JsonSchema (Some (TypeName ''string'')) None None)]) None)]) None)]) None)])
       None"

definition nested_session :: FormSession where
  "nested_session =
     new_session ''session-3'' None ''nested''
       \<lparr>def_id = ''nested'', def_name = ''Nested'', schema = nested_schema\<rparr>"

definition edits :: "op list" where
  "edits = [SetField ''a'' (Ref 0), SetField ''a.b.c.d'' (Num 1), SetField ''a.b.c'' (Num 0),
            SetField ''a.b'' (Num 7), SetField ''a.b.c'' (Ref 1), SetField ''a.b'' (Ref 2)]"

definition three_objects :: heap where
  "three_objects = [PlainObj [], PlainObj [], PlainObj []]"

definition edited_data :: "(string \<times> jsval) list" where
  "edited_data = [(''a'', Ref 0), (''a.b.c.d'', Num 1), (''a.b.c'', Ref 1), (''a.b'', Ref 2)]"

definition edited_heap :: heap where
  "edited_heap =
     [PlainObj [(''b'', Ref 2)], PlainObj [], PlainObj [],
      PlainObj [(''a'', Ref 0)], PlainObj [(''a'', Ref 0)],
      PlainObj [(''c'', Num 0)], PlainObj [(''d'', Num 1)],
      PlainObj [(''a'', Ref 0)], PlainObj [(''a'', Ref 0)],
      PlainObj [(''d'', Num 1)], PlainObj [(''a'', Ref 0)],
      PlainObj [(''c'', Ref 1)], PlainObj [(''d'', Num 1)],
      PlainObj [(''a'', Ref 0)], PlainObj [(''c'', Ref 1)],
      PlainObj [(''d'', Num 1)]]"

definition acceptance :: validation where
  "acceptance = \<lparr>valid = True, errors = None\<rparr>"

definition d_rejection :: validation where
  "d_rejection =
     \<lparr>valid = False,
      errors = Some [\<lparr>instancePath = ''/a/b/c/d'', message = Some ''must be string''\<rparr>]\<rparr>"

definition c_rejection :: validation where
  "c_rejection =
     \<lparr>valid = False,
      errors = Some [\<lparr>instancePath = ''/a/b/c'', message = Some ''must be object''\<rparr>]\<rparr>"

definition first_pass_heap :: heap where
  "first_pass_heap =
     edited_heap[2 := PlainObj [(''c'', Ref 1)]] @ [PlainObj [(''a'', Ref 0)], PlainObj [(''d'', Num 1)]]"

definition second_pass_heap :: heap where
  "second_pass_heap = first_pass_heap[1 := PlainObj [(''d'', Num 1)]] @ [PlainObj [(''a'', Ref 0)]]"

definition two_objects :: heap where
  "two_objects = [PlainObj [], PlainObj []]"

definition aliased_session :: FormSession where
  "aliased_session =
     nested_session\<lparr>data := [(''a'', Ref 0), (''a.b.c'', Num 1), (''a.b'', Ref 1)]\<rparr>"

section \<open>Properties\<close>

subsection \<open>Question order\<close>

lemma derive_loop_blocks:
  "derive_loop kvs base acc =
     acc @ concat (map (\<lambda>kc. childPath base (fst kc)
                               # deriveQuestionOrder (snd kc) (childPath base (fst kc))) kvs)"
  by (induction kvs arbitrary: acc) auto

text \<open>
  C6. \<open>deriveQuestionOrder\<close> is a depth-first pre-order traversal: for an object-typed
  schema with named properties the result is, property by property in order, the
  property's path followed at once by the paths derived from that property's schema;
  any other schema (a leaf, or an object without named properties) derives no paths, so
  a leaf property contributes its own path only. For the schema
  \<^verbatim>\<open>{object: {a: string, b: {object: {c: string}}}}\<close> the result is \<^verbatim>\<open>["a", "b", "b.c"]\<close>.
\<close>

theorem deriveQuestionOrder_preorder:
  "deriveQuestionOrder (JsonSchema t ps r) base =
     (if t = Some (TypeName ''object'')
      then (case ps of
              None \<Rightarrow> []
            | Some kvs \<Rightarrow>
                concat (map (\<lambda>kc. childPath base (fst kc)
                                    # deriveQuestionOrder (snd kc) (childPath base (fst kc))) kvs))
      else [])
   \<and> deriveQuestionOrder example_schema [] = [''a'', ''b'', ''b.c'']"
  by (simp add: derive_loop_blocks example_schema_def childPath_def split: option.splits)

subsection \<open>Navigation\<close>

lemma navigate_in_bounds: "in_bounds s \<Longrightarrow> in_bounds (navigate n s)"
  by (cases n) (auto simp: in_bounds_def moveToNextQuestion_def moveToPreviousQuestion_def)

lemma navigate_questionOrder: "questionOrder (navigate n s) = questionOrder s"
  by (cases n) (auto simp: moveToNextQuestion_def moveToPreviousQuestion_def)

lemma navigate_all_questionOrder: "questionOrder (navigate_all ns s) = questionOrder s"
  by (induction ns rule: rev_induct) (simp_all add: navigate_all_def navigate_questionOrder)

lemma navigate_all_in_bounds: "in_bounds s \<Longrightarrow> in_bounds (navigate_all ns s)"
  by (induction ns rule: rev_induct) (simp_all add: navigate_all_def navigate_in_bounds)

lemma example_questionOrder: "questionOrder example_session = [''a'', ''b'', ''b.c'']"
  by (simp add: example_session_def new_session_def example_form_def example_schema_def
      childPath_def)

lemma example_index: "currentQuestionIndex example_session = 0"
  by (simp add: example_session_def new_session_def)

text \<open>
  C5. For a session whose index is within bounds (a new session starts at 0), after every
  finite sequence of \<open>moveToNextQuestion\<close>/\<open>moveToPreviousQuestion\<close> calls the index satisfies
  \<open>0 \<le> currentQuestionIndex \<le> max 0 (length questionOrder - 1)\<close>; \<open>moveToNextQuestion\<close> at
  the last index, \<open>moveToPreviousQuestion\<close> at index 0, and either call on an empty
  \<open>questionOrder\<close> leave the session unchanged.
\<close>

theorem navigation_keeps_index_in_bounds:
  assumes "0 \<le> currentQuestionIndex s"
    and "currentQuestionIndex s \<le> max 0 (int (length (questionOrder s)) - 1)"
  shows "0 \<le> currentQuestionIndex (navigate_all ns s)
       \<and> currentQuestionIndex (navigate_all ns s) \<le> max 0 (int (length (questionOrder s)) - 1)
       \<and> questionOrder (navigate_all ns s) = questionOrder s
       \<and> (currentQuestionIndex s = int (length (questionOrder s)) - 1 \<longrightarrow> moveToNextQuestion s = s)
       \<and> (currentQuestionIndex s = 0 \<longrightarrow> moveToPreviousQuestion s = s)
       \<and> (questionOrder s = [] \<longrightarrow> moveToNextQuestion s = s \<and> moveToPreviousQuestion s = s)"
proof -
  have "in_bounds s" using assms by (simp add: in_bounds_def)
  then have "in_bounds (navigate_all ns s)" by (rule navigate_all_in_bounds)
  then have b: "0 \<le> currentQuestionIndex (navigate_all ns s)
       \<and> currentQuestionIndex (navigate_all ns s) \<le> max 0 (int (length (questionOrder s)) - 1)"
    by (simp add: in_bounds_def navigate_all_questionOrder)
  have e: "questionOrder s = [] \<longrightarrow> moveToNextQuestion s = s \<and> moveToPreviousQuestion s = s"
    using assms by (auto simp: moveToNextQuestion_def moveToPreviousQuestion_def)
  show ?thesis using b e
    by (simp add: navigate_all_questionOrder moveToNextQuestion_def moveToPreviousQuestion_def)
qed

theorem navigation_keeps_index_in_bounds_witness:
  "currentQuestionIndex (navigate_all [MoveNext, MoveNext, MoveNext, MovePrevious] example_session) = 1
   \<and> moveToPreviousQuestion example_session = example_session
   \<and> currentQuestionIndex (navigate_all [MoveNext, MoveNext, MoveNext] example_session) = 2"
  using navigation_keeps_index_in_bounds
          [of example_session "[MoveNext, MoveNext, MoveNext, MovePrevious]"]
  by (simp add: navigate_all_def moveToNextQuestion_def moveToPreviousQuestion_def
      example_questionOrder example_index)

subsection \<open>Session creation\<close>

lemma example_schema_order: "deriveQuestionOrder example_schema [] = [''a'', ''b'', ''b.c'']"
  by (simp add: example_schema_def childPath_def)

lemma parse_nat_snoc: "parse_nat (cs @ [c]) = 10 * parse_nat cs + ((of_char c :: nat) - 48)"
  by (simp add: parse_nat_def)

lemma digit_value: "d < 10 \<Longrightarrow> (of_char (''0123456789'' ! d) :: nat) - 48 = d"
proof -
  assume "d < 10"
  then have "d = 0 \<or> d = 1 \<or> d = 2 \<or> d = 3 \<or> d = 4 \<or> d = 5 \<or> d = 6 \<or> d = 7 \<or> d = 8 \<or> d = 9"
    by arith
  then show ?thesis by (elim disjE) simp_all
qed

text \<open>The decimal numeral of a number reads back as that number, so distinct numbers have
  distinct numerals.\<close>

lemma parse_nat_decimal: "parse_nat (decimal n) = n"
proof (induction n rule: decimal.induct)
  case (1 n)
  show ?case
  proof (cases "n < 10")
    case True
    have "decimal n = [''0123456789'' ! n]" using True by (subst decimal.simps) simp
    then show ?thesis using digit_value [OF True] by (simp add: parse_nat_def)
  next
    case False
    have d: "n mod 10 < 10" by simp
    have "decimal n = decimal (n div 10) @ [''0123456789'' ! (n mod 10)]"
      using False by (subst decimal.simps) simp
    then have "parse_nat (decimal n) = 10 * parse_nat (decimal (n div 10)) + (n mod 10)"
      using digit_value [OF d] by (simp add: parse_nat_snoc)
    then show ?thesis using 1 False by simp
  qed
qed

lemma decimal_inject: "decimal a = decimal b \<Longrightarrow> a = b"
  by (metis parse_nat_decimal)

lemma uuidv4_inject: "fst (uuidv4 a) = fst (uuidv4 b) \<Longrightarrow> a = b"
  using decimal_inject [of a b] by (simp add: uuidv4_def)

lemma uuidv4_next: "snd (uuidv4 n) = Suc n"
  by (simp add: uuidv4_def)

lemma run_store_snoc: "run_store (ops @ [x]) = apply_store_op (run_store ops) x"
  by (simp add: run_store_def)

text \<open>Every id under which the store holds a session has been issued by the generator.\<close>

lemma stored_ids_issued:
  "sessions (snd (run_store ops)) i \<noteq> None \<Longrightarrow> \<exists>k < fst (run_store ops). i = fst (uuidv4 k)"
proof (induction ops arbitrary: i rule: rev_induct)
  case Nil
  then show ?case by (simp add: run_store_def new_store_def)
next
  case (snoc x ops)
  show ?case
  proof (cases x)
    case (RegisterForm d)
    with snoc show ?thesis by (simp add: run_store_snoc registerForm_def)
  next
    case (CreateSession fid uid)
    show ?thesis
    proof (cases "forms (snd (run_store ops)) fid")
      case None
      with snoc CreateSession show ?thesis by (simp add: run_store_snoc createSession_def)
    next
      case (Some form)
      show ?thesis
      proof (cases "i = fst (uuidv4 (fst (run_store ops)))")
        case True
        with Some CreateSession show ?thesis
          by (auto simp: run_store_snoc createSession_def Let_def uuidv4_next)
      next
        case False
        with snoc.prems Some CreateSession
        have "sessions (snd (run_store ops)) i \<noteq> None"
          by (simp add: run_store_snoc createSession_def Let_def)
        then obtain k where "k < fst (run_store ops)" "i = fst (uuidv4 k)"
          using snoc.IH by blast
        with Some CreateSession show ?thesis
          by (auto simp: run_store_snoc createSession_def Let_def uuidv4_next intro: less_SucI)
      qed
    qed
  qed
qed

lemma next_id_unused: "sessions (snd (run_store ops)) (fst (uuidv4 (fst (run_store ops)))) = None"
proof (rule ccontr)
  assume "sessions (snd (run_store ops)) (fst (uuidv4 (fst (run_store ops)))) \<noteq> None"
  then obtain k where "k < fst (run_store ops)" "fst (uuidv4 (fst (run_store ops))) = fst (uuidv4 k)"
    using stored_ids_issued by blast
  then show False using uuidv4_inject by blast
qed

text \<open>
  C7. In every store that registrations and session creations produce from a new store,
  \<open>createSession\<close> throws \<^verbatim>\<open>Form not found\<close> when the form id is not registered and leaves
  the store and the generator as they were; for a registered form it returns, and stores
  under its id, a session whose id is fresh (the store holds no session under it, so
  every earlier session is kept), with empty data and fields, status not-started,
  validity unknown, index 0 and the question order derived from the definition's schema.
\<close>

theorem createSession_spec:
  "(forms (snd (run_store ops)) fid = None \<longrightarrow>
      createSession (run_store ops) fid uid
        = Threw (Error (''Form not found: '' @ fid)) (run_store ops))
   \<and> (forms (snd (run_store ops)) fid = Some form \<longrightarrow>
        (\<exists>sess n. createSession (run_store ops) fid uid
                  = Returned sess
                      (n, (snd (run_store ops))
                            \<lparr>sessions := (sessions (snd (run_store ops)))(sessionId sess \<mapsto> sess)\<rparr>)
           \<and> sessions (snd (run_store ops)) (sessionId sess) = None
           \<and> formId sess = fid \<and> userId sess = uid \<and> definitionSnapshot sess = form
           \<and> data sess = [] \<and> dataPrototype sess = ObjectPrototype
           \<and> fields_rec sess = Map.empty \<and> fieldsPrototype sess = None
           \<and> status sess = NotStarted \<and> overallValidity sess = Unknown
           \<and> currentQuestionIndex sess = 0
           \<and> questionOrder sess = deriveQuestionOrder (schema form) []))"
  using next_id_unused [of ops] by (simp add: createSession_def new_session_def Let_def)

lemma example_store_run:
  "run_store [RegisterForm example_form, CreateSession ''example'' None]
     = (1, \<lparr>forms = [''example'' \<mapsto> example_form],
            sessions = [''session-0'' \<mapsto> new_session ''session-0'' None ''example'' example_form]\<rparr>)"
  by (simp add: run_store_def new_store_def registerForm_def createSession_def Let_def
      uuidv4_def example_form_def decimal.simps [of 0])

theorem createSession_spec_witness:
  "createSession (run_store [RegisterForm example_form, CreateSession ''example'' None]) ''missing'' None
     = Threw (Error ''Form not found: missing'')
         (run_store [RegisterForm example_form, CreateSession ''example'' None])
   \<and> (\<exists>sess n. createSession (run_store [RegisterForm example_form, CreateSession ''example'' None])
                  ''example'' None
                = Returned sess
                    (n, \<lparr>forms = [''example'' \<mapsto> example_form],
                         sessions = [''session-0'' \<mapsto> new_session ''session-0'' None ''example'' example_form,
                                     sessionId sess \<mapsto> sess]\<rparr>)
         \<and> sessionId sess \<noteq> ''session-0''
         \<and> questionOrder sess = [''a'', ''b'', ''b.c''] \<and> status sess = NotStarted)"
proof -
  have s: "schema example_form = example_schema" by (simp add: example_form_def)
  show ?thesis
    using createSession_spec [of "[RegisterForm example_form, CreateSession ''example'' None]"
            "''missing''" None example_form]
          createSession_spec [of "[RegisterForm example_form, CreateSession ''example'' None]"
            "''example''" None example_form]
    by (auto simp: example_store_run s example_schema_order)
qed

subsection \<open>Property lists\<close>

lemma map_of_prop_insert:
  "map_of ps k = None \<Longrightarrow> map_of (prop_insert ps k v) = (map_of ps)(k \<mapsto> v)"
  by (induction ps) (auto simp: fun_upd_twist split: if_splits)

lemma map_of_prop_update_at:
  "map_of (prop_update ps k v) k' =
     (if k' = k then (if map_of ps k = None then None else Some v) else map_of ps k')"
  by (induction ps) auto

lemma map_of_prop_update:
  "map_of ps k \<noteq> None \<Longrightarrow> map_of (prop_update ps k v) = (map_of ps)(k \<mapsto> v)"
  by (rule ext) (auto simp: map_of_prop_update_at)

lemma map_of_prop_put: "map_of (prop_put ps k v) = (map_of ps)(k \<mapsto> v)"
  by (simp add: prop_put_def map_of_prop_insert map_of_prop_update)





subsection \<open>The validation pass\<close>

lemma lookup_msgs_add_error:
  "lookup_msgs (add_error fe e) p =
     lookup_msgs fe p @ (if normalizeAjvPath (instancePath e) = p then [error_message e] else [])"
  by (auto simp: lookup_msgs_def add_error_def Let_def split: option.splits)

lemma lookup_msgs_fieldErrors:
  "lookup_msgs (fieldErrors errs) p =
     map error_message (filter (\<lambda>e. normalizeAjvPath (instancePath e) = p) errs)"
proof (induction errs rule: rev_induct)
  case Nil
  show ?case by (simp add: fieldErrors_def lookup_msgs_def)
next
  case (snoc e errs)
  have "fieldErrors (errs @ [e]) = add_error (fieldErrors errs) e"
    by (simp add: fieldErrors_def)
  then show ?case using snoc by (simp add: lookup_msgs_add_error)
qed

lemma field_put_frame:
  "data (field_put s p e) = data s"
  "dataPrototype (field_put s p e) = dataPrototype s"
  "status (field_put s p e) = status s"
  "overallValidity (field_put s p e) = overallValidity s"
  "questionOrder (field_put s p e) = questionOrder s"
  "currentQuestionIndex (field_put s p e) = currentQuestionIndex s"
  "definitionSnapshot (field_put s p e) = definitionSnapshot s"
  by (simp_all add: field_put_def)

lemma field_put_other: "q \<noteq> p \<Longrightarrow> fields_rec (field_put s p e) q = fields_rec s q"
  by (simp add: field_put_def)

lemma field_put_same: "p \<noteq> ''__proto__'' \<Longrightarrow> fields_rec (field_put s p e) p = Some e"
  by (simp add: field_put_def)

lemma rewrite_field_frame:
  "data (rewrite_field h fe s p) = data s"
  "dataPrototype (rewrite_field h fe s p) = dataPrototype s"
  "status (rewrite_field h fe s p) = status s"
  "overallValidity (rewrite_field h fe s p) = overallValidity s"
  "questionOrder (rewrite_field h fe s p) = questionOrder s"
  "currentQuestionIndex (rewrite_field h fe s p) = currentQuestionIndex s"
  "definitionSnapshot (rewrite_field h fe s p) = definitionSnapshot s"
  by (simp_all add: rewrite_field_def Let_def field_put_frame)

lemma rewrite_field_other:
  "q \<noteq> p \<Longrightarrow> fields_rec (rewrite_field h fe s p) q = fields_rec s q"
  by (simp add: rewrite_field_def Let_def field_put_other)

text \<open>
  The entry that a round of the loop stores for a path other than \<^verbatim>\<open>__proto__\<close>: the
  spread of what was found, with validity and messages from the errors grouped under the
  path.
\<close>

lemma rewrite_field_same:
  "p \<noteq> ''__proto__'' \<Longrightarrow>
     \<exists>e. fields_rec (rewrite_field h fe s p) p = Some e
        \<and> map_of e ''messages'' = Some (Msgs (lookup_msgs fe p))
        \<and> map_of e ''schemaValid'' = Some (JV (Bool (lookup_msgs fe p = [])))"
  by (simp add: rewrite_field_def Let_def field_put_same map_of_prop_put lookup_msgs_def)

lemma rewrite_field_keeps:
  assumes "fields_rec s p = Some e" and "k \<noteq> ''schemaValid''" and "k \<noteq> ''messages''"
    and "p \<noteq> ''__proto__''"
  shows "\<exists>e'. fields_rec (rewrite_field h fe s q) p = Some e' \<and> map_of e' k = map_of e k"
proof (cases "q = p")
  case True
  with assms show ?thesis
    by (simp add: rewrite_field_def Let_def field_put_same field_lookup_def spread_def
        map_of_prop_put)
next
  case False
  with assms show ?thesis by (simp add: rewrite_field_other)
qed

lemma rewrite_loop_frame:
  "data (foldl (rewrite_field h fe) s ps) = data s"
  "dataPrototype (foldl (rewrite_field h fe) s ps) = dataPrototype s"
  "status (foldl (rewrite_field h fe) s ps) = status s"
  "overallValidity (foldl (rewrite_field h fe) s ps) = overallValidity s"
  "questionOrder (foldl (rewrite_field h fe) s ps) = questionOrder s"
  "currentQuestionIndex (foldl (rewrite_field h fe) s ps) = currentQuestionIndex s"
  "definitionSnapshot (foldl (rewrite_field h fe) s ps) = definitionSnapshot s"
  by (induction ps rule: rev_induct; simp add: rewrite_field_frame)+

lemma rewrite_loop_other:
  "q \<notin> set ps \<Longrightarrow> fields_rec (foldl (rewrite_field h fe) s ps) q = fields_rec s q"
  by (induction ps rule: rev_induct) (simp_all add: rewrite_field_other)

lemma rewrite_loop_keeps:
  assumes "fields_rec s p = Some e" and "k \<noteq> ''schemaValid''" and "k \<noteq> ''messages''"
    and "p \<noteq> ''__proto__''"
  shows "\<exists>e'. fields_rec (foldl (rewrite_field h fe) s ps) p = Some e' \<and> map_of e' k = map_of e k"
proof (induction ps rule: rev_induct)
  case Nil
  show ?case using assms(1) by simp
next
  case (snoc q ps)
  then obtain e1 where e1: "fields_rec (foldl (rewrite_field h fe) s ps) p = Some e1"
    "map_of e1 k = map_of e k" by blast
  from rewrite_field_keeps [OF e1(1) assms(2,3,4), of h fe q] e1(2)
  show ?case by simp
qed

lemma rewrite_loop_member:
  assumes "p \<in> set ps" and "p \<noteq> ''__proto__''"
  shows "\<exists>e. fields_rec (foldl (rewrite_field h fe) s ps) p = Some e
        \<and> map_of e ''messages'' = Some (Msgs (lookup_msgs fe p))
        \<and> map_of e ''schemaValid'' = Some (JV (Bool (lookup_msgs fe p = [])))"
  using assms(1)
proof (induction ps rule: rev_induct)
  case Nil
  then show ?case by simp
next
  case (snoc q ps)
  show ?case
  proof (cases "q = p")
    case True
    with rewrite_field_same [OF assms(2), of h fe "foldl (rewrite_field h fe) s ps"]
    show ?thesis by simp
  next
    case False
    with snoc show ?thesis by (simp add: rewrite_field_other)
  qed
qed

lemma apply_validation_status:
  "status (apply_validation h res s) = (if valid res then Complete else status s)"
  by (simp add: apply_validation_def Let_def rewrite_loop_frame)

lemma apply_validation_validity:
  "overallValidity (apply_validation h res s) = (if valid res then Valid else Invalid)"
  by (simp add: apply_validation_def Let_def)

lemma apply_validation_frame:
  "data (apply_validation h res s) = data s"
  "dataPrototype (apply_validation h res s) = dataPrototype s"
  "questionOrder (apply_validation h res s) = questionOrder s"
  "currentQuestionIndex (apply_validation h res s) = currentQuestionIndex s"
  "definitionSnapshot (apply_validation h res s) = definitionSnapshot s"
  by (simp_all add: apply_validation_def Let_def rewrite_loop_frame)

lemma apply_validation_fields_outside:
  "p \<notin> set (questionOrder s) \<Longrightarrow> fields_rec (apply_validation h res s) p = fields_rec s p"
  by (simp add: apply_validation_def Let_def rewrite_loop_other)

lemma apply_validation_keeps:
  assumes "fields_rec s p = Some e" and "k \<noteq> ''schemaValid''" and "k \<noteq> ''messages''"
    and "p \<noteq> ''__proto__''"
  shows "\<exists>e'. fields_rec (apply_validation h res s) p = Some e' \<and> map_of e' k = map_of e k"
  using rewrite_loop_keeps [OF assms, of h "fieldErrors (case errors res of None \<Rightarrow> [] | Some es \<Rightarrow> es)"
          "questionOrder s"]
  by (simp add: apply_validation_def Let_def)

text \<open>
  The messages that a pass leaves on a path of the question order are those that the code
  groups under the path: the messages of the errors whose instance path, its first slash
  dropped and every other slash turned into a dot, is the path.
\<close>

lemma apply_validation_messages:
  assumes "p \<in> set (questionOrder s)" and "p \<noteq> ''__proto__''"
  shows "map_option messages (fields_rec (apply_validation h res s) p)
           = Some (map error_message
                     (filter (\<lambda>e. normalizeAjvPath (instancePath e) = p) (pass_errors res)))"
  using rewrite_loop_member [OF assms, of h "fieldErrors (pass_errors res)" s]
  by (auto simp: apply_validation_def Let_def pass_errors_def messages_def lookup_msgs_fieldErrors)

lemma run_session:
  "snd (state_of (runSchemaValidation rt (h, s))) =
     (case validate_document rt h s of
        Returned res h1 \<Rightarrow> apply_validation h1 res s
      | Threw e h1 \<Rightarrow> s)"
  by (simp add: runSchemaValidation_def split: outcome.splits)

lemma run_frame:
  "data (snd (state_of (runSchemaValidation rt (h, s)))) = data s"
  "questionOrder (snd (state_of (runSchemaValidation rt (h, s)))) = questionOrder s"
  "currentQuestionIndex (snd (state_of (runSchemaValidation rt (h, s)))) = currentQuestionIndex s"
  "definitionSnapshot (snd (state_of (runSchemaValidation rt (h, s)))) = definitionSnapshot s"
  by (simp_all add: run_session apply_validation_frame split: outcome.splits)



subsection \<open>The recorded answer\<close>

lemma data_put_frame:
  "fields_rec (data_put h s p v) = fields_rec s"
  "fieldsPrototype (data_put h s p v) = fieldsPrototype s"
  "status (data_put h s p v) = status s"
  "questionOrder (data_put h s p v) = questionOrder s"
  "currentQuestionIndex (data_put h s p v) = currentQuestionIndex s"
  "definitionSnapshot (data_put h s p v) = definitionSnapshot s"
  by (simp_all add: data_put_def)

lemma data_put_data: "p \<noteq> ''__proto__'' \<Longrightarrow> data (data_put h s p v) = prop_put (data s) p v"
  by (simp add: data_put_def)


lemma record_answer_data:
  "p \<noteq> ''__proto__'' \<Longrightarrow> data (record_answer h s p v) = prop_put (data s) p v"
  by (simp add: record_answer_def Let_def field_put_frame data_put_data)


lemma record_answer_fields:
  "p \<noteq> ''__proto__'' \<Longrightarrow>
     \<exists>sv ms. fields_rec (record_answer h s p v) p = Some (field_state p v sv ms True)"
  by (auto simp: record_answer_def Let_def field_put_same)


lemma record_answer_status:
  "status (record_answer h s p v) = (if status s = NotStarted then InProgress else status s)"
  by (simp add: record_answer_def Let_def field_put_frame data_put_frame)

lemma record_answer_frame:
  "questionOrder (record_answer h s p v) = questionOrder s"
  "currentQuestionIndex (record_answer h s p v) = currentQuestionIndex s"
  "definitionSnapshot (record_answer h s p v) = definitionSnapshot s"
  by (simp_all add: record_answer_def Let_def field_put_frame data_put_frame)

subsection \<open>Document reconstruction\<close>





subsection \<open>Sequences of operations\<close>

lemma navigate_frame:
  "data (navigate n s) = data s"
  "fields_rec (navigate n s) = fields_rec s"
  "status (navigate n s) = status s"
  "definitionSnapshot (navigate n s) = definitionSnapshot s"
  by (cases n; simp add: moveToNextQuestion_def moveToPreviousQuestion_def)+

lemma apply_op_questionOrder:
  "questionOrder (snd (state_of (apply_op rt x w))) = questionOrder (snd w)"
  by (cases x; cases w)
     (simp_all add: setFieldValue_def run_frame record_answer_frame navigate_questionOrder)

lemma apply_op_definitionSnapshot:
  "definitionSnapshot (snd (state_of (apply_op rt x w))) = definitionSnapshot (snd w)"
  by (cases x; cases w)
     (simp_all add: setFieldValue_def run_frame record_answer_frame navigate_frame)



lemma run_ops_snoc: "run_ops rt (ops @ [x]) w = state_of (apply_op rt x (run_ops rt ops w))"
  by (simp add: run_ops_def)

lemma run_ops_questionOrder:
  "questionOrder (snd (run_ops rt ops w)) = questionOrder (snd w)"
  by (induction ops rule: rev_induct) (simp_all add: run_ops_snoc apply_op_questionOrder, simp add: run_ops_def)

lemma run_ops_definitionSnapshot:
  "definitionSnapshot (snd (run_ops rt ops w)) = definitionSnapshot (snd w)"
  by (induction ops rule: rev_induct)
     (simp_all add: run_ops_snoc apply_op_definitionSnapshot, simp add: run_ops_def)



lemma apply_op_in_bounds:
  "in_bounds (snd w) \<Longrightarrow> in_bounds (snd (state_of (apply_op rt x w)))"
  by (cases x; cases w)
     (simp_all add: in_bounds_def setFieldValue_def run_frame record_answer_frame
        navigate_in_bounds [unfolded in_bounds_def])

lemma reachable_sessions_in_bounds:
  "in_bounds (snd (run_ops rt ops (h, new_session uuid uid fid form)))"
proof (induction ops rule: rev_induct)
  case Nil
  show ?case by (simp add: run_ops_def in_bounds_def new_session_def)
next
  case (snoc x ops)
  then show ?case by (simp add: run_ops_snoc apply_op_in_bounds)
qed

lemmas heap_eval =
  setDeepValue_def js_get_def walk_bound_def js_put_def own_put_def own_get_def heap_obj_def
  prop_put_def key_before_def array_index_def is_digit_def array_length_of_def
  length_by_toString_def converted_length_def object_prototype_members_def
  array_prototype_members_def set_prototype_def

text \<open>
  C9 does not hold of the code: an array is a container for \<^verbatim>\<open>setDeepValue\<close>
  (\<^verbatim>\<open>typeof\<close> gives \<^verbatim>\<open>object\<close>). With the answer \<^verbatim>\<open>tags = ["x"]\<close> and an answer at the path
  \<^verbatim>\<open>tags.length.x\<close> the loop reaches the array, reads its \<^verbatim>\<open>length\<close> (a number, not a
  container) and assigns a new object to it, which throws a RangeError.
\<close>

theorem reconstruction_throws_on_array_length:
  "runSchemaValidation ajv_runtime (array_heap, array_session)
     = Threw RangeError
         ([ArrayObj 1 [(''0'', Str ''x'')], PlainObj [(''tags'', Ref 0)], PlainObj []],
          array_session)"
  by (simp add: runSchemaValidation_def validate_document_def array_heap_def array_session_def
      heap_eval)

text \<open>
  C10. For a session that is not-started with empty data whose snapshot schema compiles
  to a validator accepting the empty document, \<open>runSchemaValidation\<close> returns with
  validity valid and status complete: the status skips in-progress. The witness is the
  example session, whose schema has no required property.
\<close>

theorem validation_completes_unanswered_session:
  assumes "status s = NotStarted" and "data s = []"
    and "ajv_compile rt (schema (definitionSnapshot s)) = Some validate"
    and "valid (validate (h @ [PlainObj []]) (Ref (length h)))"
  shows "\<exists>s'. runSchemaValidation rt (h, s) = Returned () (h @ [PlainObj []], s')
          \<and> overallValidity s' = Valid \<and> status s' = Complete \<and> data s' = []"
  using assms
  by (simp add: runSchemaValidation_def validate_document_def apply_validation_status
      apply_validation_validity apply_validation_frame)

lemmas session_eval =
  validate_document_def record_answer_def data_put_def field_put_def field_lookup_def
  inherited_field_def member_def or_default_def Let_def new_session_def
  ajv_runtime_def ajv_validate_def missing_required_def is_json_object_def json_type_ok_def
  escape_pointer_def

lemma example_empty_pass:
  "validate_document ajv_runtime [] example_session = Returned acceptance [PlainObj []]"
  by (simp add: acceptance_def session_eval heap_eval example_session_def example_form_def
      example_schema_def)

theorem validation_completes_unanswered_session_witness:
  "status example_session = NotStarted \<and> data example_session = []
   \<and> (\<exists>s'. runSchemaValidation ajv_runtime ([], example_session) = Returned () ([PlainObj []], s')
          \<and> overallValidity s' = Valid \<and> status s' = Complete)"
proof -
  have a: "status example_session = NotStarted" "data example_session = []"
    by (simp_all add: example_session_def new_session_def)
  have c: "ajv_compile ajv_runtime (schema (definitionSnapshot example_session))
             = Some (ajv_validate example_schema)"
    by (simp add: ajv_runtime_def example_session_def new_session_def example_form_def)
  have v: "valid (ajv_validate example_schema ([] @ [PlainObj []]) (Ref (length ([] :: heap))))"
    by (simp add: ajv_validate_def example_schema_def missing_required_def is_json_object_def
        json_type_ok_def heap_eval)
  show ?thesis
    using validation_completes_unanswered_session [OF a c v] a by auto
qed





lemma setFieldValue_Returned:
  "setFieldValue rt (h, s) p v = Returned u w \<Longrightarrow>
     \<exists>res. validate_document rt h (record_answer h s p v) = Returned res (fst w)
        \<and> snd w = apply_validation (fst w) res (record_answer h s p v)"
  by (auto simp: setFieldValue_def runSchemaValidation_def split: outcome.splits)









lemmas validator_eval =
  ajv_runtime_def ajv_validate_def missing_required_def is_json_object_def json_type_ok_def
  escape_pointer_def







lemma apply_validation_schemaValid:
  assumes "p \<in> set (questionOrder s)" and "p \<noteq> ''__proto__''"
  shows "map_option schemaValid (fields_rec (apply_validation h res s) p)
           = Some (filter (\<lambda>e. normalizeAjvPath (instancePath e) = p) (pass_errors res) = [])"
  using rewrite_loop_member [OF assms, of h "fieldErrors (pass_errors res)" s]
  by (auto simp: apply_validation_def Let_def pass_errors_def schemaValid_def
      lookup_msgs_fieldErrors)

lemma tilde_pass:
  "validate_document ajv_runtime [] tilde_answered
     = Returned tilde_rejection [PlainObj [(''a~b'', Num 5)]]"
  by (simp add: validate_document_def tilde_answered_def tilde_session_def new_session_def
      tilde_schema_def tilde_rejection_def validator_eval heap_eval)

text \<open>
  C2 does not hold of the code. The instance path of a violation is a JSON pointer, in
  which a tilde inside a property name is written \<^verbatim>\<open>~0\<close>; \<open>normalizeAjvPath\<close> turns slashes
  into dots and leaves the escape in place. For the form with the question \<^verbatim>\<open>a~b\<close> of type
  string and the answer 5, the pass reports \<^verbatim>\<open>must be string\<close> at the pointer \<^verbatim>\<open>/a~0b\<close>, whose
  only segment is \<^verbatim>\<open>a~b\<close>; the code groups the message under \<^verbatim>\<open>a~0b\<close>, and the field state
  of \<^verbatim>\<open>a~b\<close> ends valid with no messages while the overall validity is invalid.
\<close>

theorem validation_misses_escaped_path:
  "questionOrder tilde_answered = [''a~b'']
   \<and> validate_document ajv_runtime [] tilde_answered
       = Returned tilde_rejection [PlainObj [(''a~b'', Num 5)]]
   \<and> violation_messages tilde_rejection ''a~b'' = [''must be string'']
   \<and> runSchemaValidation ajv_runtime ([], tilde_answered)
       = Returned () ([PlainObj [(''a~b'', Num 5)]],
                      apply_validation [PlainObj [(''a~b'', Num 5)]] tilde_rejection tilde_answered)
   \<and> overallValidity
         (apply_validation [PlainObj [(''a~b'', Num 5)]] tilde_rejection tilde_answered) = Invalid
   \<and> map_option schemaValid
         (fields_rec (apply_validation [PlainObj [(''a~b'', Num 5)]] tilde_rejection tilde_answered)
            ''a~b'') = Some True
   \<and> map_option messages
         (fields_rec (apply_validation [PlainObj [(''a~b'', Num 5)]] tilde_rejection tilde_answered)
            ''a~b'') = Some []"
proof -
  have q: "questionOrder tilde_answered = [''a~b'']"
    by (simp add: tilde_answered_def tilde_session_def new_session_def tilde_schema_def
        childPath_def)
  have m: "''a~b'' \<in> set (questionOrder tilde_answered)" by (simp add: q)
  have n: "''a~b'' \<noteq> ''__proto__''" by simp
  have v: "violation_messages tilde_rejection ''a~b'' = [''must be string'']"
    by (simp add: violation_messages_def pass_errors_def tilde_rejection_def pointer_segments_def
        error_message_def)
  have f: "filter (\<lambda>e. normalizeAjvPath (instancePath e) = ''a~b'') (pass_errors tilde_rejection) = []"
    by (simp add: pass_errors_def tilde_rejection_def normalizeAjvPath_def)
  show ?thesis
    by (simp add: q v tilde_pass runSchemaValidation_def apply_validation_validity
        apply_validation_schemaValid [OF m n] apply_validation_messages [OF m n] f,
        simp add: tilde_rejection_def)
qed

lemma field_put_prototype:
  "p \<noteq> ''__proto__'' \<Longrightarrow> fieldsPrototype (field_put s p e) = fieldsPrototype s"
  by (simp add: field_put_def)

lemma rewrite_loop_prototype:
  "''__proto__'' \<notin> set ps \<Longrightarrow>
     fieldsPrototype (foldl (rewrite_field h fe) s ps) = fieldsPrototype s"
  by (induction ps rule: rev_induct)
     (auto simp: rewrite_field_def Let_def field_put_prototype)

lemma apply_validation_prototype:
  "''__proto__'' \<notin> set (questionOrder s) \<Longrightarrow>
     fieldsPrototype (apply_validation h res s) = fieldsPrototype s"
  by (simp add: apply_validation_def Let_def rewrite_loop_prototype)

lemma proto_answer:
  "record_answer [] example_session ''__proto__'' (Str ''x'')
     = example_session
         \<lparr>fieldsPrototype :=
            Some (field_state ''__proto__'' (Str ''x'') (JV (Bool False)) (Msgs []) True),
          status := InProgress\<rparr>"
  by (simp add: session_eval heap_eval example_session_def)

text \<open>
  C4 does not hold of the code at the path \<^verbatim>\<open>__proto__\<close>. The assignment
  \<^verbatim>\<open>session.data[path] = value\<close> calls the setter that \<^verbatim>\<open>session.data\<close> inherits, which
  ignores a string: the call returns, \<open>data\<close> has no property, and the read of
  \<^verbatim>\<open>session.data["__proto__"]\<close> gives \<^verbatim>\<open>Object.prototype\<close>, not the value. The field state of
  the answer has become the prototype of \<^verbatim>\<open>session.fields\<close>, and the pass has validated the
  empty document.
\<close>

theorem setFieldValue_drops_proto_answer:
  "(case setFieldValue ajv_runtime ([], example_session) ''__proto__'' (Str ''x'') of
      Returned u w \<Rightarrow>
        data (snd w) = [] \<and> data_at (fst w) (snd w) ''__proto__'' = ObjectPrototype
        \<and> field_lookup (fst w) (snd w) ''__proto__''
            = FoundState (field_state ''__proto__'' (Str ''x'') (JV (Bool False)) (Msgs []) True)
        \<and> overallValidity (snd w) = Valid \<and> status (snd w) = Complete
    | Threw e w \<Rightarrow> False)"
proof -
  let ?s = "record_answer [] example_session ''__proto__'' (Str ''x'')"
  have d: "data ?s = []" "dataPrototype ?s = ObjectPrototype"
    "fields_rec ?s ''__proto__'' = None"
    "fieldsPrototype ?s
       = Some (field_state ''__proto__'' (Str ''x'') (JV (Bool False)) (Msgs []) True)"
    by (simp_all add: proto_answer, simp_all add: example_session_def new_session_def)
  have sn: "schema (definitionSnapshot ?s) = example_schema"
    by (simp add: record_answer_frame example_session_def new_session_def example_form_def)
  have p: "validate_document ajv_runtime [] ?s = Returned acceptance [PlainObj []]"
    by (simp add: validate_document_def d sn example_schema_def acceptance_def validator_eval
        heap_eval)
  have q: "''__proto__'' \<notin> set (questionOrder ?s)"
    by (simp add: record_answer_frame example_questionOrder)
  have l: "field_lookup [PlainObj []] (apply_validation [PlainObj []] acceptance ?s) ''__proto__''
           = FoundState (field_state ''__proto__'' (Str ''x'') (JV (Bool False)) (Msgs []) True)"
    using q
    by (simp add: field_lookup_def inherited_field_def apply_validation_fields_outside
        apply_validation_prototype d field_state_def)
  have a: "data_at [PlainObj []] (apply_validation [PlainObj []] acceptance ?s) ''__proto__''
             = ObjectPrototype"
    by (simp add: data_at_def apply_validation_frame d heap_eval)
  have v: "valid acceptance" by (simp add: acceptance_def)
  show ?thesis
    by (simp add: setFieldValue_def runSchemaValidation_def p apply_validation_frame
        apply_validation_status apply_validation_validity l a d v)
qed

subsection \<open>Repeated validation\<close>

text \<open>
  The heap and the data after a call of \<open>setFieldValue\<close> at a path other than \<^verbatim>\<open>__proto__\<close>,
  whether the call returns or throws in the reconstruction.
\<close>

lemma setFieldValue_heap_data:
  assumes "p \<noteq> ''__proto__''" and "ajv_compile rt (schema (definitionSnapshot (snd w))) \<noteq> None"
  shows "fst (state_of (setFieldValue rt w p v))
           = state_of (reconstruct rt (fst w @ [PlainObj []]) (length (fst w))
                         (prop_put (data (snd w)) p v))"
    and "data (snd (state_of (setFieldValue rt w p v))) = prop_put (data (snd w)) p v"
  using assms
  by (auto simp: setFieldValue_def runSchemaValidation_def validate_document_def
      record_answer_data record_answer_frame apply_validation_frame split: outcome.splits)

lemma nested_compiles:
  "definitionSnapshot (snd w) = definitionSnapshot nested_session \<Longrightarrow>
     ajv_compile ajv_runtime (schema (definitionSnapshot (snd w))) \<noteq> None"
  by (simp add: ajv_runtime_def)

lemma edits_run:
  "fst (run_ops ajv_runtime edits (three_objects, nested_session)) = edited_heap"
  "data (snd (run_ops ajv_runtime edits (three_objects, nested_session))) = edited_data"
proof -
  define w0 where "w0 = (three_objects, nested_session)"
  define w1 where "w1 = state_of (setFieldValue ajv_runtime w0 ''a'' (Ref 0))"
  define w2 where "w2 = state_of (setFieldValue ajv_runtime w1 ''a.b.c.d'' (Num 1))"
  define w3 where "w3 = state_of (setFieldValue ajv_runtime w2 ''a.b.c'' (Num 0))"
  define w4 where "w4 = state_of (setFieldValue ajv_runtime w3 ''a.b'' (Num 7))"
  define w5 where "w5 = state_of (setFieldValue ajv_runtime w4 ''a.b.c'' (Ref 1))"
  define w6 where "w6 = state_of (setFieldValue ajv_runtime w5 ''a.b'' (Ref 2))"
  have r: "run_ops ajv_runtime edits (three_objects, nested_session) = w6"
    by (simp add: run_ops_def edits_def w0_def w1_def w2_def w3_def w4_def w5_def w6_def)
  have c: "ajv_compile ajv_runtime sch \<noteq> None" for sch by (simp add: ajv_runtime_def)
  have h0: "fst w0 = three_objects" "data (snd w0) = []"
    by (simp_all add: w0_def nested_session_def new_session_def)
  have h1: "fst w1 = [PlainObj [], PlainObj [], PlainObj [], PlainObj [(''a'', Ref 0)]]"
    "data (snd w1) = [(''a'', Ref 0)]"
    unfolding w1_def by (simp_all add: setFieldValue_heap_data c h0 three_objects_def heap_eval)
  have h2: "fst w2 = [PlainObj [(''b'', Ref 5)], PlainObj [], PlainObj [],
                      PlainObj [(''a'', Ref 0)], PlainObj [(''a'', Ref 0)],
                      PlainObj [(''c'', Ref 6)], PlainObj [(''d'', Num 1)]]"
    "data (snd w2) = [(''a'', Ref 0), (''a.b.c.d'', Num 1)]"
    unfolding w2_def by (simp_all add: setFieldValue_heap_data c h1 heap_eval)
  have h3: "fst w3 = [PlainObj [(''b'', Ref 5)], PlainObj [], PlainObj [],
                      PlainObj [(''a'', Ref 0)], PlainObj [(''a'', Ref 0)],
                      PlainObj [(''c'', Num 0)], PlainObj [(''d'', Num 1)],
                      PlainObj [(''a'', Ref 0)]]"
    "data (snd w3) = [(''a'', Ref 0), (''a.b.c.d'', Num 1), (''a.b.c'', Num 0)]"
    unfolding w3_def by (simp_all add: setFieldValue_heap_data c h2 heap_eval)
  have h4: "fst w4 = [PlainObj [(''b'', Num 7)], PlainObj [], PlainObj [],
                      PlainObj [(''a'', Ref 0)], PlainObj [(''a'', Ref 0)],
                      PlainObj [(''c'', Num 0)], PlainObj [(''d'', Num 1)],
                      PlainObj [(''a'', Ref 0)], PlainObj [(''a'', Ref 0)],
                      PlainObj [(''d'', Num 1)]]"
    "data (snd w4) = [(''a'', Ref 0), (''a.b.c.d'', Num 1), (''a.b.c'', Num 0), (''a.b'', Num 7)]"
    unfolding w4_def by (simp_all add: setFieldValue_heap_data c h3 heap_eval)
  have h5: "fst w5 = [PlainObj [(''b'', Num 7)], PlainObj [], PlainObj [],
                      PlainObj [(''a'', Ref 0)], PlainObj [(''a'', Ref 0)],
                      PlainObj [(''c'', Num 0)], PlainObj [(''d'', Num 1)],
                      PlainObj [(''a'', Ref 0)], PlainObj [(''a'', Ref 0)],
                      PlainObj [(''d'', Num 1)], PlainObj [(''a'', Ref 0)],
                      PlainObj [(''c'', Ref 1)], PlainObj [(''d'', Num 1)]]"
    "data (snd w5) = [(''a'', Ref 0), (''a.b.c.d'', Num 1), (''a.b.c'', Ref 1), (''a.b'', Num 7)]"
    unfolding w5_def by (simp_all add: setFieldValue_heap_data c h4 heap_eval)
  have h6: "fst w6 = edited_heap" "data (snd w6) = edited_data"
    unfolding w6_def
    by (simp_all add: setFieldValue_heap_data c h5 heap_eval edited_heap_def edited_data_def)
  show "fst (run_ops ajv_runtime edits (three_objects, nested_session)) = edited_heap"
    by (simp add: r h6)
  show "data (snd (run_ops ajv_runtime edits (three_objects, nested_session))) = edited_data"
    by (simp add: r h6)
qed

lemmas pass_eval =
  validate_document_def validator_eval nested_schema_def Let_def

lemma first_pass:
  "data s = edited_data \<Longrightarrow> schema (definitionSnapshot s) = nested_schema \<Longrightarrow>
     validate_document ajv_runtime edited_heap s = Returned acceptance first_pass_heap"
  by (simp add: pass_eval heap_eval edited_data_def edited_heap_def first_pass_heap_def
      acceptance_def)

lemma second_pass:
  "data s = edited_data \<Longrightarrow> schema (definitionSnapshot s) = nested_schema \<Longrightarrow>
     validate_document ajv_runtime first_pass_heap s = Returned d_rejection second_pass_heap"
  by (simp add: pass_eval heap_eval edited_data_def edited_heap_def first_pass_heap_def
      second_pass_heap_def d_rejection_def)

lemma aliased_first_pass:
  "validate_document ajv_runtime two_objects aliased_session
     = Returned acceptance
         [PlainObj [(''b'', Ref 1)], PlainObj [], PlainObj [(''a'', Ref 0)], PlainObj [(''c'', Num 1)]]"
  by (simp add: pass_eval heap_eval aliased_session_def nested_session_def new_session_def
      two_objects_def acceptance_def)

lemma aliased_second_pass:
  "validate_document ajv_runtime
       [PlainObj [(''b'', Ref 1)], PlainObj [], PlainObj [(''a'', Ref 0)], PlainObj [(''c'', Num 1)]]
       (apply_validation
          [PlainObj [(''b'', Ref 1)], PlainObj [], PlainObj [(''a'', Ref 0)], PlainObj [(''c'', Num 1)]]
          acceptance aliased_session)
     = Returned c_rejection
         [PlainObj [(''b'', Ref 1)], PlainObj [(''c'', Num 1)], PlainObj [(''a'', Ref 0)],
          PlainObj [(''c'', Num 1)], PlainObj [(''a'', Ref 0)]]"
  by (simp add: pass_eval heap_eval apply_validation_frame aliased_session_def nested_session_def
      new_session_def c_rejection_def)

lemma nested_questionOrder:
  "questionOrder nested_session = [''a'', ''a.b'', ''a.b.c'', ''a.b.c.d'']"
  by (simp add: nested_session_def new_session_def nested_schema_def childPath_def)

text \<open>The messages that the code groups under a path, for the three results of the example.\<close>

lemma grouped_messages:
  "map error_message (filter (\<lambda>e. normalizeAjvPath (instancePath e) = p) (pass_errors acceptance)) = []"
  "map error_message (filter (\<lambda>e. normalizeAjvPath (instancePath e) = ''a.b.c'')
                         (pass_errors c_rejection)) = [''must be object'']"
  "map error_message (filter (\<lambda>e. normalizeAjvPath (instancePath e) = ''a.b.c.d'')
                         (pass_errors d_rejection)) = [''must be string'']"
  by (simp_all add: pass_errors_def acceptance_def c_rejection_def d_rejection_def
      normalizeAjvPath_def error_message_def)

lemma two_passes:
  assumes "validate_document rt h s = Returned res1 h1"
    and "validate_document rt h1 (apply_validation h1 res1 s) = Returned res2 h2"
    and "p \<in> set (questionOrder s)" and "p \<noteq> ''__proto__''"
  shows "data (snd (state_of (runSchemaValidation rt (h, s)))) = data s"
    and "data (snd (state_of (runSchemaValidation rt (state_of (runSchemaValidation rt (h, s)))))) = data s"
    and "overallValidity (snd (state_of (runSchemaValidation rt (h, s))))
           = (if valid res1 then Valid else Invalid)"
    and "overallValidity (snd (state_of (runSchemaValidation rt (state_of (runSchemaValidation rt (h, s))))))
           = (if valid res2 then Valid else Invalid)"
    and "map_option messages (fields_rec (snd (state_of (runSchemaValidation rt (h, s)))) p)
           = Some (map error_message
                     (filter (\<lambda>e. normalizeAjvPath (instancePath e) = p) (pass_errors res1)))"
    and "map_option messages
           (fields_rec (snd (state_of (runSchemaValidation rt (state_of (runSchemaValidation rt (h, s)))))) p)
           = Some (map error_message
                     (filter (\<lambda>e. normalizeAjvPath (instancePath e) = p) (pass_errors res2)))"
proof -
  have r1: "runSchemaValidation rt (h, s) = Returned () (h1, apply_validation h1 res1 s)"
    using assms(1) by (simp add: runSchemaValidation_def)
  have r2: "runSchemaValidation rt (h1, apply_validation h1 res1 s)
              = Returned () (h2, apply_validation h2 res2 (apply_validation h1 res1 s))"
    using assms(2) by (simp add: runSchemaValidation_def)
  have q: "p \<in> set (questionOrder (apply_validation h1 res1 s))"
    using assms(3) by (simp add: apply_validation_frame)
  show "data (snd (state_of (runSchemaValidation rt (h, s)))) = data s"
    by (simp add: r1 apply_validation_frame)
  show "data (snd (state_of (runSchemaValidation rt (state_of (runSchemaValidation rt (h, s)))))) = data s"
    by (simp add: r1 r2 apply_validation_frame)
  show "overallValidity (snd (state_of (runSchemaValidation rt (h, s))))
           = (if valid res1 then Valid else Invalid)"
    by (simp add: r1 apply_validation_validity)
  show "overallValidity (snd (state_of (runSchemaValidation rt (state_of (runSchemaValidation rt (h, s))))))
           = (if valid res2 then Valid else Invalid)"
    by (simp add: r1 r2 apply_validation_validity)
  show "map_option messages (fields_rec (snd (state_of (runSchemaValidation rt (h, s)))) p)
           = Some (map error_message
                     (filter (\<lambda>e. normalizeAjvPath (instancePath e) = p) (pass_errors res1)))"
    by (simp add: r1 apply_validation_messages [OF assms(3,4)])
  show "map_option messages
           (fields_rec (snd (state_of (runSchemaValidation rt (state_of (runSchemaValidation rt (h, s)))))) p)
           = Some (map error_message
                     (filter (\<lambda>e. normalizeAjvPath (instancePath e) = p) (pass_errors res2)))"
    by (simp add: r1 r2 apply_validation_messages [OF q assms(4)])
qed

text \<open>
  C8 does not hold of the code. The reconstruction stores the objects that \<open>data\<close> holds
  by reference in the document and writes into them, so one pass changes what the next
  pass reads. For the session with the answers \<^verbatim>\<open>a = {}\<close>, \<^verbatim>\<open>a.b.c = 1\<close>, \<^verbatim>\<open>a.b = {}\<close>
  (in this order) the first pass validates \<^verbatim>\<open>{a: {b: {}}}\<close> and the second
  \<^verbatim>\<open>{a: {b: {c: 1}}}\<close>: with the same \<open>data\<close>, the overall validity is valid after the
  first call and invalid after the second, and the messages of \<^verbatim>\<open>a.b.c\<close> differ. The same
  happens between two calls on a session reached through six \<open>setFieldValue\<close> calls.
\<close>

theorem validation_is_not_idempotent:
  "(let w1 = state_of (runSchemaValidation ajv_runtime (two_objects, aliased_session));
        w2 = state_of (runSchemaValidation ajv_runtime w1)
    in data (snd w1) = data aliased_session \<and> data (snd w2) = data aliased_session
       \<and> overallValidity (snd w1) = Valid \<and> overallValidity (snd w2) = Invalid
       \<and> map_option messages (fields_rec (snd w1) ''a.b.c'') = Some []
       \<and> map_option messages (fields_rec (snd w2) ''a.b.c'') = Some [''must be object''])
   \<and> (let w = run_ops ajv_runtime edits (three_objects, nested_session);
           w1 = state_of (runSchemaValidation ajv_runtime w);
           w2 = state_of (runSchemaValidation ajv_runtime w1)
       in data (snd w) = edited_data \<and> data (snd w1) = edited_data \<and> data (snd w2) = edited_data
          \<and> overallValidity (snd w1) = Valid \<and> overallValidity (snd w2) = Invalid
          \<and> map_option messages (fields_rec (snd w1) ''a.b.c.d'') = Some []
          \<and> map_option messages (fields_rec (snd w2) ''a.b.c.d'') = Some [''must be string''])"
proof -
  have q: "''a.b.c'' \<in> set (questionOrder aliased_session)"
    by (simp add: aliased_session_def nested_questionOrder)
  have n: "''a.b.c'' \<noteq> ''__proto__''" "''a.b.c.d'' \<noteq> ''__proto__''" by simp_all
  note direct = two_passes [OF aliased_first_pass aliased_second_pass q n(1)]
  define s where "s = snd (run_ops ajv_runtime edits (three_objects, nested_session))"
  have w: "run_ops ajv_runtime edits (three_objects, nested_session) = (edited_heap, s)"
    using edits_run(1) by (simp add: s_def prod_eq_iff)
  have d: "data s = edited_data" by (simp add: s_def edits_run)
  have sch: "schema (definitionSnapshot s) = nested_schema"
    by (simp add: s_def run_ops_definitionSnapshot nested_session_def new_session_def)
  have qs: "''a.b.c.d'' \<in> set (questionOrder s)"
    by (simp add: s_def run_ops_questionOrder nested_questionOrder)
  have p1: "validate_document ajv_runtime edited_heap s = Returned acceptance first_pass_heap"
    using d sch by (rule first_pass)
  have p2: "validate_document ajv_runtime first_pass_heap (apply_validation first_pass_heap acceptance s)
              = Returned d_rejection second_pass_heap"
    by (rule second_pass) (simp_all add: apply_validation_frame d sch)
  note api = two_passes [OF p1 p2 qs n(2)]
  have v: "valid acceptance" "\<not> valid c_rejection" "\<not> valid d_rejection"
    by (simp_all add: acceptance_def c_rejection_def d_rejection_def)
  show ?thesis
    unfolding Let_def w
    using direct api by (simp add: grouped_messages v d)
qed

text \<open>
  The difference lies in the reconstructed documents themselves, whatever the runtime: in
  the first pass over the three answers the document has nothing at \<^verbatim>\<open>a.b.c\<close>, in the second
  it has the number 1 there.
\<close>

lemma aliased_documents:
  "reconstruct rt (two_objects @ [PlainObj []]) 2 (data aliased_session)
     = Returned () [PlainObj [(''b'', Ref 1)], PlainObj [], PlainObj [(''a'', Ref 0)],
                    PlainObj [(''c'', Num 1)]]
   \<and> resolve [PlainObj [(''b'', Ref 1)], PlainObj [], PlainObj [(''a'', Ref 0)],
               PlainObj [(''c'', Num 1)]] (Ref 2) [''a'', ''b'', ''c''] = Undefined
   \<and> reconstruct rt ([PlainObj [(''b'', Ref 1)], PlainObj [], PlainObj [(''a'', Ref 0)],
                        PlainObj [(''c'', Num 1)]] @ [PlainObj []]) 4 (data aliased_session)
     = Returned () [PlainObj [(''b'', Ref 1)], PlainObj [(''c'', Num 1)], PlainObj [(''a'', Ref 0)],
                    PlainObj [(''c'', Num 1)], PlainObj [(''a'', Ref 0)]]
   \<and> resolve [PlainObj [(''b'', Ref 1)], PlainObj [(''c'', Num 1)], PlainObj [(''a'', Ref 0)],
               PlainObj [(''c'', Num 1)], PlainObj [(''a'', Ref 0)]] (Ref 4) [''a'', ''b'', ''c'']
     = Num 1"
  by (simp add: heap_eval aliased_session_def two_objects_def)

text \<open>
  At every path other than \<^verbatim>\<open>__proto__\<close> a call that returns has recorded the answer:
  the value is an own property of \<open>data\<close>, the entry of \<open>fields\<close> carries the value and is
  touched, also after the rewrite by the validation pass, and the status and the overall
  validity have left their initial values.
\<close>

lemma setFieldValue_records_answer:
  assumes "p \<noteq> ''__proto__''" and "setFieldValue rt (h, s) p v = Returned () w"
  shows "map_of (data (snd w)) p = Some v"
    and "\<exists>e. fields_rec (snd w) p = Some e \<and> map_of e ''value'' = Some (JV v)
            \<and> map_of e ''touched'' = Some (JV (Bool True))"
    and "status (snd w) \<noteq> NotStarted"
    and "overallValidity (snd w) \<noteq> Unknown"
proof -
  from setFieldValue_Returned [OF assms(2)] obtain res where
    w: "snd w = apply_validation (fst w) res (record_answer h s p v)" by blast
  show "map_of (data (snd w)) p = Some v"
    using assms(1) by (simp add: w apply_validation_frame record_answer_data map_of_prop_put)
  obtain sv ms where e: "fields_rec (record_answer h s p v) p = Some (field_state p v sv ms True)"
    using record_answer_fields [OF assms(1)] by blast
  from apply_validation_keeps [OF e _ _ assms(1), of "''value''" "fst w" res]
  obtain e1 where e1: "fields_rec (snd w) p = Some e1"
    "map_of e1 ''value'' = map_of (field_state p v sv ms True) ''value''"
    by (auto simp: w)
  from apply_validation_keeps [OF e _ _ assms(1), of "''touched''" "fst w" res] e1(1)
  have "map_of e1 ''touched'' = map_of (field_state p v sv ms True) ''touched''"
    by (auto simp: w)
  with e1 show "\<exists>e. fields_rec (snd w) p = Some e \<and> map_of e ''value'' = Some (JV v)
            \<and> map_of e ''touched'' = Some (JV (Bool True))"
    by (simp add: field_state_def)
  show "status (snd w) \<noteq> NotStarted"
    by (simp add: w apply_validation_status record_answer_status)
  show "overallValidity (snd w) \<noteq> Unknown"
    by (simp add: w apply_validation_validity)
qed

text \<open>
  A number at an intermediate segment is replaced by a new container, and a path through
  \<^verbatim>\<open>__proto__\<close> writes into \<^verbatim>\<open>Object.prototype\<close>.
\<close>

lemma reconstruction_examples:
  "reconstruct rt [PlainObj []] 0 [(''a'', Num 5), (''a.b'', Str ''x'')]
     = Returned () [PlainObj [(''a'', Ref 1)], PlainObj [(''b'', Str ''x'')]]"
  "reconstruct rt [PlainObj []] 0 [(''__proto__.x'', Num 1)]
     = Returned () [PlainObj [], ObjectPrototypeCell [(''x'', Num 1)]]"
  "reconstruct rt [PlainObj []] 0 [(''__proto__.__proto__.x'', Num 1)]
     = Threw TypeError [PlainObj [], PlainObj []]"
  by (simp_all add: heap_eval)

end
